theory Spec2Isabelle
  imports Main "HOL-Library.Sublist" "HOL-Library.Word" "HOL-Library.AList"
begin

section \<open>Python values used by the two scripts\<close>

text \<open>
  A Python \<open>str\<close> is a sequence of Unicode code points: \<open>len\<close> and slicing count code
  points, not bytes. It is modelled as a list of code points; \<open>u\<close> turns an ASCII literal
  into such a list.
\<close>

type_synonym ustr = "nat list"

definition u :: "string \<Rightarrow> ustr" where
  "u s = map of_char s"

text \<open>\<open>str(n)\<close> for a Python \<open>int\<close>: the decimal digits, with a minus sign when negative.\<close>

function str_nat :: "nat \<Rightarrow> ustr" where
  "str_nat n = (if n < 10 then [48 + n] else str_nat (n div 10) @ [48 + n mod 10])"
  by pat_completeness auto
termination
  by (relation "measure (\<lambda>n. n)") auto

declare str_nat.simps [simp del]

definition str_int :: "int \<Rightarrow> ustr" where
  "str_int i = (if i < 0 then 45 # str_nat (nat (- i)) else str_nat (nat i))"

text \<open>\<open>c * n\<close> for a one-character string \<open>c\<close>: the character repeated \<open>n\<close> times.\<close>

definition str_times :: "ustr \<Rightarrow> nat \<Rightarrow> ustr" where
  "str_times s n = concat (replicate n s)"

section \<open>The filler string of both scripts\<close>

text \<open>Line 6 of test-large-stdin.py: \<^verbatim>\<open>large_content = 'x' * (60 * 1024)\<close>.\<close>

definition large_content_large_stdin :: ustr where
  "large_content_large_stdin = str_times (u ''x'') (60 * 1024)"

text \<open>Line 6 of test-stdin.py, the same expression.\<close>

definition large_content_stdin :: ustr where
  "large_content_stdin = str_times (u ''x'') (60 * 1024)"

section \<open>Values, exceptions and the operations the scripts apply to them\<close>

text \<open>
  The value \<open>response.json()\<close> returns, and the payload the scripts build: \<open>None\<close>,
  \<open>bool\<close>, \<open>int\<close>, \<open>float\<close> (carried as its IEEE-754 bit pattern; the scripts do no
  arithmetic on it), \<open>str\<close>, \<open>list\<close>, and \<open>dict\<close> with \<open>str\<close> keys, as an association
  list in insertion order (the first entry of a key is the one looked up).
\<close>

datatype pyval =
    PNone
  | PBool bool
  | PInt int
  | PFloat "64 word"
  | PStr ustr
  | PList "pyval list"
  | PDict "(ustr \<times> pyval) list"

text \<open>
  The instances of \<open>Exception\<close> that can reach the scripts' \<open>except Exception\<close> clause.
  \<open>LibraryError\<close> is any exception raised inside \<open>requests\<close> (connection refused,
  timeout, a body that is not JSON, ...), carried as its \<open>str()\<close>. The others are raised by
  the interpreter: for a subscript, a slice or \<open>len\<close>, and \<open>UnicodeEncodeError\<close> by
  \<open>print\<close>, with the text it was given and the position of the first character that
  could not be encoded. \<open>DictSliceError\<close> is what slicing a \<open>dict\<close> raises (a
  \<open>TypeError\<close> up to Python 3.11, a \<open>KeyError\<close> from 3.12 on).
  Asynchronous interruptions of the process (KeyboardInterrupt, a kill signal) are not
  instances of \<open>Exception\<close> and are outside the model.
\<close>

datatype exn =
    KeyError pyval
  | IndexError
  | TypeError
  | DictSliceError
  | LibraryError ustr
  | UnicodeEncodeError ustr nat

text \<open>Sequencing of sub-expressions: the first exception raised ends the evaluation.\<close>

definition and_then :: "exn + 'a \<Rightarrow> ('a \<Rightarrow> exn + 'b) \<Rightarrow> exn + 'b" where
  "and_then r f = (case r of Inl e \<Rightarrow> Inl e | Inr v \<Rightarrow> f v)"

text \<open>\<open>obj[k]\<close> with a \<open>str\<close> key \<open>k\<close>.\<close>

fun getitem_str :: "pyval \<Rightarrow> ustr \<Rightarrow> exn + pyval" where
  "getitem_str (PDict kvs) k =
     (case map_of kvs k of Some v \<Rightarrow> Inr v | None \<Rightarrow> Inl (KeyError (PStr k)))"
| "getitem_str _ k = Inl TypeError"

text \<open>\<open>obj[i]\<close> with an \<open>int\<close> index \<open>i\<close>; a negative index counts from the end.\<close>

definition norm_index :: "nat \<Rightarrow> int \<Rightarrow> nat option" where
  "norm_index n i =
     (let j = (if i < 0 then int n + i else i)
      in if 0 \<le> j \<and> j < int n then Some (nat j) else None)"

fun getitem_int :: "pyval \<Rightarrow> int \<Rightarrow> exn + pyval" where
  "getitem_int (PList xs) i =
     (case norm_index (length xs) i of Some j \<Rightarrow> Inr (xs ! j) | None \<Rightarrow> Inl IndexError)"
| "getitem_int (PStr s) i =
     (case norm_index (length s) i of Some j \<Rightarrow> Inr (PStr [s ! j]) | None \<Rightarrow> Inl IndexError)"
| "getitem_int (PDict kvs) i = Inl (KeyError (PInt i))"
| "getitem_int _ i = Inl TypeError"

text \<open>\<open>obj[:n]\<close> for a literal \<open>n \<ge> 0\<close>.\<close>

fun slice_to :: "pyval \<Rightarrow> nat \<Rightarrow> exn + pyval" where
  "slice_to (PStr s) n = Inr (PStr (take n s))"
| "slice_to (PList xs) n = Inr (PList (take n xs))"
| "slice_to (PDict kvs) n = Inl DictSliceError"
| "slice_to _ n = Inl TypeError"

text \<open>\<open>len(obj)\<close>.\<close>

fun py_len :: "pyval \<Rightarrow> exn + nat" where
  "py_len (PStr s) = Inr (length s)"
| "py_len (PList xs) = Inr (length xs)"
| "py_len (PDict kvs) = Inr (length (remdups (map fst kvs)))"
| "py_len _ = Inl TypeError"

section \<open>The world outside the scripts\<close>

text \<open>
  What \<open>requests.post\<close> is called with, and the three attributes of the response object
  the scripts read: \<open>status_code\<close>, \<open>text\<close> and the outcome of calling \<open>json()\<close>.
\<close>

record request =
  url :: ustr
  json_body :: pyval
  headers :: "(ustr \<times> ustr) list"

record response =
  status_code :: int
  body_text :: ustr
  json :: "exn + pyval"

text \<open>
  Everything a run could depend on besides the script's own text: the command line, the
  environment variables, how the endpoint answers a request (\<open>post\<close>: an exception raised
  by \<open>requests.post\<close> or a response), and the interpreter's own texts: \<open>exn_message\<close>
  is \<open>str(e)\<close> for an exception the interpreter raised, \<open>repr\<close> renders a value that is
  neither a \<open>str\<close> nor an \<open>int\<close> (for a \<open>float\<close>, its shortest decimal text),
  \<open>float_of_str\<close> is \<open>float(s)\<close> for a decimal text, and \<open>stdout_encodes\<close> says
  which characters outside ASCII the encoding and error handler of \<open>sys.stdout\<close> can
  write (set by the locale, the terminal or \<open>PYTHONIOENCODING\<close>).
\<close>

record world =
  argv :: "ustr list"
  environ :: "(ustr \<times> ustr) list"
  post :: "request \<Rightarrow> exn + response"
  exn_message :: "exn \<Rightarrow> ustr"
  repr :: "pyval \<Rightarrow> ustr"
  float_of_str :: "ustr \<Rightarrow> 64 word"
  stdout_encodes :: "nat \<Rightarrow> bool"

text \<open>\<open>str(e)\<close>, as \<open>f'{e}'\<close> renders an exception.\<close>

definition str_exn :: "world \<Rightarrow> exn \<Rightarrow> ustr" where
  "str_exn w e = (case e of LibraryError m \<Rightarrow> m | _ \<Rightarrow> exn_message w e)"

text \<open>\<open>f'{v}'\<close> for a value.\<close>

definition format_value :: "world \<Rightarrow> pyval \<Rightarrow> ustr" where
  "format_value w v = (case v of PStr s \<Rightarrow> s | PInt i \<Rightarrow> str_int i | _ \<Rightarrow> repr w v)"

section \<open>Statements, \<open>print\<close> and \<open>try\<close>\<close>

text \<open>
  What the process has done so far: the lines written to standard output, one per
  successful \<open>print\<close>, and the requests handed to \<open>requests.post\<close>.
\<close>

record console =
  printed :: "ustr list"
  requested :: "request list"

text \<open>
  A statement or expression with effects: from what has been done so far to the exception
  it raises or the value it yields, and what has been done after it.
\<close>

type_synonym 'a io = "console \<Rightarrow> (exn + 'a) \<times> console"

text \<open>One after the other: an exception raised by the first skips the second.\<close>

definition then_do :: "'a io \<Rightarrow> ('a \<Rightarrow> 'b io) \<Rightarrow> 'b io" where
  "then_do m f c = (case m c of (Inl e, c') \<Rightarrow> (Inl e, c') | (Inr v, c') \<Rightarrow> f v c')"

text \<open>An expression without effects that may raise.\<close>

definition evaluate :: "exn + 'a \<Rightarrow> 'a io" where
  "evaluate r c = (r, c)"

text \<open>\<open>try: body except Exception as e: handler\<close>.\<close>

definition try_except :: "'a io \<Rightarrow> (exn \<Rightarrow> 'a io) \<Rightarrow> 'a io" where
  "try_except body handler c =
     (case body c of (Inl e, c') \<Rightarrow> handler e c' | (Inr v, c') \<Rightarrow> (Inr v, c'))"

text \<open>
  \<open>print(s)\<close> hands \<open>s\<close> and then a line feed to \<open>sys.stdout\<close>, which encodes a text
  before it writes any of it. A character the stream cannot encode makes \<open>print\<close> raise
  \<open>UnicodeEncodeError\<close>, and nothing of the line is written. ASCII characters are taken to
  be encodable, as they are in ASCII, Latin-1, the Windows code pages and UTF-8; for the
  others the world decides. Failures of the operating system (a closed or broken standard
  output) are outside the model.
\<close>

definition encodable :: "world \<Rightarrow> nat \<Rightarrow> bool" where
  "encodable w c = (c < 128 \<or> stdout_encodes w c)"

definition can_print :: "world \<Rightarrow> ustr \<Rightarrow> bool" where
  "can_print w s = list_all (encodable w) s"

definition first_unencodable :: "world \<Rightarrow> ustr \<Rightarrow> nat" where
  "first_unencodable w s = length (takeWhile (encodable w) s)"

definition py_print :: "world \<Rightarrow> ustr \<Rightarrow> unit io" where
  "py_print w s c =
     (if can_print w s then (Inr (), c\<lparr>printed := printed c @ [s]\<rparr>)
      else (Inl (UnicodeEncodeError s (first_unencodable w s)), c))"

text \<open>\<open>requests.post(url, json=..., headers=...)\<close>: the request is handed over, and the
  world answers with a response or an exception.\<close>

definition requests_post :: "world \<Rightarrow> request \<Rightarrow> response io" where
  "requests_post w req c = (post w req, c\<lparr>requested := requested c @ [req]\<rparr>)"

text \<open>
  What a run leaves behind: the lines printed, the requests handed to \<open>requests.post\<close>,
  and the exception that left \<open>test_stdin_implementation\<close>, if any. The process exits
  with 0 when the module body finishes and with 1 on an uncaught exception.
\<close>

record run =
  stdout :: "ustr list"
  posted :: "request list"
  uncaught :: "exn option"

definition exit_code :: "run \<Rightarrow> int" where
  "exit_code r = (case uncaught r of None \<Rightarrow> 0 | Some e \<Rightarrow> 1)"

text \<open>A process starts with nothing done; when it ends, the run is what it has done.\<close>

definition start :: console where
  "start = \<lparr>printed = [], requested = []\<rparr>"

definition finish :: "(exn + unit) \<times> console \<Rightarrow> run" where
  "finish rc =
     \<lparr>stdout = printed (snd rc), posted = requested (snd rc),
      uncaught = (case fst rc of Inl e \<Rightarrow> Some e | Inr x \<Rightarrow> None)\<rparr>"

text \<open>The two markers the scripts print: U+2705 and U+274C.\<close>

definition check_mark :: ustr where
  "check_mark = [0x2705]"

definition cross_mark :: ustr where
  "cross_mark = [0x274C]"

definition endpoint :: ustr where
  "endpoint = u ''http://localhost:8080/v1/chat/completions''"

definition content_type_json :: "(ustr \<times> ustr) list" where
  "content_type_json = [(u ''Content-Type'', u ''application/json'')]"

section \<open>test-large-stdin.py\<close>

text \<open>Lines 12 to 20: the payload.\<close>

definition payload_large_stdin :: pyval where
  "payload_large_stdin =
     PDict [
       (u ''model'', PStr (u ''sonnet'')),
       (u ''messages'', PList [
          PDict [
            (u ''role'', PStr (u ''user'')),
            (u ''content'', PStr (
               u ''This is a large content test. Content length: ''
               @ str_int (int (length large_content_large_stdin))
               @ u '' bytes. First 100 chars: ''
               @ take 100 large_content_large_stdin))]])]"

text \<open>Line 30: \<^verbatim>\<open>result["choices"][0]["message"]["content"][:200]\<close>.\<close>

definition choices0_message_content :: "pyval \<Rightarrow> exn + pyval" where
  "choices0_message_content result =
     and_then (getitem_str result (u ''choices'')) (\<lambda>choices.
     and_then (getitem_int choices 0) (\<lambda>choice.
     and_then (getitem_str choice (u ''message'')) (\<lambda>message.
     getitem_str message (u ''content''))))"

text \<open>Lines 23 to 25: what \<open>requests.post\<close> is called with.\<close>

definition request_large_stdin :: request where
  "request_large_stdin =
     \<lparr>url = endpoint, json_body = payload_large_stdin, headers = content_type_json\<rparr>"

text \<open>Lines 23 to 33, the body of the \<open>try\<close>.\<close>

definition try_block_large_stdin :: "world \<Rightarrow> unit io" where
  "try_block_large_stdin w =
     then_do (requests_post w request_large_stdin) (\<lambda>response.
       if status_code response = 200 then
         then_do (py_print w (check_mark @ u '' Success! Large prompt handled correctly'')) (\<lambda>_.
         then_do (evaluate (json response)) (\<lambda>result.
         then_do (evaluate (and_then (choices0_message_content result)
                              (\<lambda>c. slice_to c 200))) (\<lambda>v.
         py_print w (u ''Response: '' @ format_value w v @ u ''...''))))
       else
         then_do (py_print w (cross_mark @ u '' Error: '' @ str_int (status_code response))) (\<lambda>_.
         py_print w (body_text response)))"

text \<open>
  Lines 8 to 36, \<open>test_stdin_implementation\<close>: the two prints before the \<open>try\<close>, the
  \<open>try\<close>, and the handler, whose \<open>print\<close> is not inside any \<open>try\<close>.
\<close>

definition test_stdin_implementation_large_stdin :: "world \<Rightarrow> unit io" where
  "test_stdin_implementation_large_stdin w =
     then_do (py_print w (u ''Testing stdin implementation with large prompt...'')) (\<lambda>_.
     then_do (py_print w (u ''Prompt size: ''
                          @ str_int (int (length large_content_large_stdin))
                          @ u '' bytes'')) (\<lambda>_.
     try_except (try_block_large_stdin w)
       (\<lambda>e. py_print w (cross_mark @ u '' Error: '' @ str_exn w e))))"

section \<open>test-stdin.py\<close>

text \<open>Lines 11 to 25: the dictionary appended in iteration \<open>i\<close> of the loop.\<close>

definition large_tool :: "nat \<Rightarrow> pyval" where
  "large_tool i =
     PDict [
       (u ''type'', PStr (u ''function'')),
       (u ''function'', PDict [
          (u ''name'', PStr (u ''large_tool_'' @ str_int (int i))),
          (u ''description'', PStr (
             u ''This is a large tool description that simulates real MCP tool contexts. ''
             @ str_times (u ''x'') 500)),
          (u ''parameters'', PDict [
             (u ''type'', PStr (u ''object'')),
             (u ''properties'', PDict [
                (u ''param1'', PDict [(u ''type'', PStr (u ''string'')),
                                      (u ''description'', PStr (u ''Parameter 1''))]),
                (u ''param2'', PDict [(u ''type'', PStr (u ''number'')),
                                      (u ''description'', PStr (u ''Parameter 2''))])]),
             (u ''required'', PList [PStr (u ''param1''), PStr (u ''param2'')])])])]"

text \<open>Lines 7 to 25: the list starts empty and \<open>for i in range(50)\<close> appends to it.\<close>

definition large_tools :: "pyval list" where
  "large_tools = foldl (\<lambda>tools i. tools @ [large_tool i]) [] [0..<50]"

text \<open>Lines 32 to 41: the payload.\<close>

definition payload_stdin :: pyval where
  "payload_stdin =
     PDict [
       (u ''model'', PStr (u ''sonnet'')),
       (u ''messages'', PList [
          PDict [
            (u ''role'', PStr (u ''user'')),
            (u ''content'', PStr (
               u ''Process this large content (first 100 chars): ''
               @ take 100 large_content_stdin))]]),
       (u ''tools'', PList large_tools)]"

text \<open>Lines 44 to 46: what \<open>requests.post\<close> is called with.\<close>

definition request_stdin :: request where
  "request_stdin =
     \<lparr>url = endpoint, json_body = payload_stdin, headers = content_type_json\<rparr>"

text \<open>Lines 44 to 54, the body of the \<open>try\<close>.\<close>

definition try_block_stdin :: "world \<Rightarrow> unit io" where
  "try_block_stdin w =
     then_do (requests_post w request_stdin) (\<lambda>response.
       if status_code response = 200 then
         then_do (py_print w (check_mark @ u '' Success! Stdin implementation working'')) (\<lambda>_.
         then_do (evaluate (json response)) (\<lambda>result.
         then_do (evaluate (and_then (choices0_message_content result) py_len)) (\<lambda>n.
         py_print w (u ''Response length: '' @ str_int (int n)))))
       else
         then_do (py_print w (cross_mark @ u '' Error: '' @ str_int (status_code response))) (\<lambda>_.
         py_print w (body_text response)))"

text \<open>Lines 27 to 57, \<open>test_stdin_implementation\<close>.\<close>

definition test_stdin_implementation_stdin :: "world \<Rightarrow> unit io" where
  "test_stdin_implementation_stdin w =
     then_do (py_print w (u ''Testing stdin implementation with large prompt...'')) (\<lambda>_.
     then_do (py_print w (u ''Prompt size: ''
                          @ str_int (int (length large_content_stdin))
                          @ u '' bytes'')) (\<lambda>_.
     then_do (py_print w (u ''Tools count: '' @ str_int (int (length large_tools)))) (\<lambda>_.
     try_except (try_block_stdin w)
       (\<lambda>e. py_print w (cross_mark @ u '' Error: '' @ str_exn w e)))))"

section \<open>Running the scripts\<close>

text \<open>
  The last two lines of each file: run as a script, the module body has built the filler
  string (and the tool list), defined the function, and now calls it. An exception that
  leaves the function ends the process.
\<close>

definition main_large_stdin :: "world \<Rightarrow> run" where
  "main_large_stdin w = finish (test_stdin_implementation_large_stdin w start)"

definition main_stdin :: "world \<Rightarrow> run" where
  "main_stdin w = finish (test_stdin_implementation_stdin w start)"

section \<open>Observations the properties are stated with\<close>

text \<open>\<open>payload["messages"][0]["content"]\<close>: the content of the first message of a payload.\<close>

definition message_content :: "pyval \<Rightarrow> exn + pyval" where
  "message_content payload =
     and_then (getitem_str payload (u ''messages'')) (\<lambda>messages.
     and_then (getitem_int messages 0) (\<lambda>message.
     getitem_str message (u ''content'')))"

text \<open>\<open>len(payload["messages"])\<close>.\<close>

definition message_count :: "pyval \<Rightarrow> exn + nat" where
  "message_count payload = and_then (getitem_str payload (u ''messages'')) py_len"

text \<open>\<open>tool["function"]["name"]\<close>.\<close>

definition tool_name :: "pyval \<Rightarrow> exn + pyval" where
  "tool_name t = and_then (getitem_str t (u ''function'')) (\<lambda>f. getitem_str f (u ''name''))"

text \<open>\<open>list(d.keys())\<close> of a dictionary.\<close>

fun keys :: "pyval \<Rightarrow> ustr list" where
  "keys (PDict kvs) = map fst kvs"
| "keys _ = []"

text \<open>The lines each script prints before its \<open>try\<close>.\<close>

definition banner_large_stdin :: "ustr list" where
  "banner_large_stdin =
     [u ''Testing stdin implementation with large prompt...'',
      u ''Prompt size: '' @ str_int (int (length large_content_large_stdin)) @ u '' bytes'']"

definition banner_stdin :: "ustr list" where
  "banner_stdin =
     [u ''Testing stdin implementation with large prompt...'',
      u ''Prompt size: '' @ str_int (int (length large_content_stdin)) @ u '' bytes'',
      u ''Tools count: '' @ str_int (int (length large_tools))]"

text \<open>The line with the failure marker for an exception.\<close>

definition failure_line :: "world \<Rightarrow> exn \<Rightarrow> ustr" where
  "failure_line w e = cross_mark @ u '' Error: '' @ str_exn w e"

text \<open>
  The run in which exception \<open>e\<close> reaches the handler after the lines \<open>out\<close> have been
  printed and \<open>req\<close> has been posted: the handler prints the failure line, or, where
  standard output cannot encode that line, its \<open>print\<close> raises and nothing catches it.
\<close>

definition caught :: "world \<Rightarrow> ustr list \<Rightarrow> request \<Rightarrow> exn \<Rightarrow> run" where
  "caught w out req e =
     (if can_print w (failure_line w e) then
        \<lparr>stdout = out @ [failure_line w e], posted = [req], uncaught = None\<rparr>
      else
        \<lparr>stdout = out, posted = [req],
         uncaught = Some (UnicodeEncodeError (failure_line w e)
                           (first_unencodable w (failure_line w e)))\<rparr>)"

text \<open>
  The expected shape of a response, in the spec's words: a JSON object with \<open>choices\<close>,
  a sequence with at least one element, whose element has \<open>message.content\<close>. For a
  value of that shape, \<open>content_at\<close> is the content of the first element; for any other
  value it is \<open>None\<close>: the value lacks the keys.
\<close>

fun content_at :: "pyval \<Rightarrow> pyval option" where
  "content_at (PDict kvs) =
     (case map_of kvs (u ''choices'') of
        Some (PList (PDict choice # others)) \<Rightarrow>
          (case map_of choice (u ''message'') of
             Some (PDict message) \<Rightarrow> map_of message (u ''content'')
           | _ \<Rightarrow> None)
      | _ \<Rightarrow> None)"
| "content_at _ = None"

text \<open>The value of a decimal numeral, read from its digits.\<close>

definition digits_value :: "ustr \<Rightarrow> nat" where
  "digits_value ds = foldl (\<lambda>a d. 10 * a + (d - 48)) 0 ds"

section \<open>The request body: \<open>json.dumps\<close> and \<open>json.loads\<close>\<close>

text \<open>
  \<open>requests.post(url, json=payload)\<close> does not send the dictionary: it sends the text
  \<open>json.dumps(payload, allow_nan=False)\<close>, encoded as UTF-8. That serialiser, and the
  \<open>json.loads\<close> a receiver would decode the body with, are the Python standard library's,
  not the repository's. They are modelled here after the library's Python implementation
  (json/encoder.py, json/decoder.py, json/scanner.py) with its default options. Two limits
  of the interpreter are left out: its recursion limit (a value nested a thousand deep makes
  both functions raise \<open>RecursionError\<close>) and its limit on the digits of an integer
  converted to or from text (4300 by default in recent versions). The payloads of the two
  scripts are a few levels deep and hold no number.
\<close>

subsection \<open>Encoding\<close>

text \<open>One lower-case hexadecimal digit, and \<open>'{0:04x}'.format(n)\<close>.\<close>

definition hex_digit :: "nat \<Rightarrow> nat" where
  "hex_digit d = (if d < 10 then 48 + d else 87 + d)"

definition hex4 :: "nat \<Rightarrow> ustr" where
  "hex4 n = [hex_digit (n div 4096 mod 16), hex_digit (n div 256 mod 16),
             hex_digit (n div 16 mod 16), hex_digit (n mod 16)]"

text \<open>
  \<open>py_encode_basestring_ascii\<close>, one character: backslash, quote and the five control
  characters with a short escape; printable ASCII as it is; any other character of the
  basic plane as \<open>\uXXXX\<close>; a character beyond it as a surrogate pair.
\<close>

definition escape_ascii :: "nat \<Rightarrow> ustr" where
  "escape_ascii c =
     (if c = 92 then [92, 92]
      else if c = 34 then [92, 34]
      else if c = 8 then [92, 98]
      else if c = 12 then [92, 102]
      else if c = 10 then [92, 110]
      else if c = 13 then [92, 114]
      else if c = 9 then [92, 116]
      else if 32 \<le> c \<and> c \<le> 126 then [c]
      else if c < 0x10000 then [92, 117] @ hex4 c
      else (let n = c - 0x10000;
                s1 = 0xD800 + n div 1024 mod 1024;
                s2 = 0xDC00 + n mod 1024
            in [92, 117] @ hex4 s1 @ [92, 117] @ hex4 s2))"

definition encode_basestring_ascii :: "ustr \<Rightarrow> ustr" where
  "encode_basestring_ascii s = [34] @ concat (map escape_ascii s) @ [34]"

text \<open>
  A float whose exponent bits are all ones is an infinity or a NaN: with
  \<open>allow_nan=False\<close> the encoder raises \<open>ValueError\<close> for it.
\<close>

definition out_of_range_float :: "64 word \<Rightarrow> bool" where
  "out_of_range_float f = (take_bit 11 (drop_bit 52 f) = (0x7FF :: 64 word))"

text \<open>
  \<open>_iterencode\<close>, \<open>_iterencode_list\<close> and \<open>_iterencode_dict\<close> with the default
  separators \<open>', '\<close> and \<open>': '\<close>. The result is \<open>None\<close> where the encoder raises.
\<close>

fun iterencode :: "world \<Rightarrow> pyval \<Rightarrow> ustr option"
  and iterencode_list :: "world \<Rightarrow> pyval list \<Rightarrow> ustr option"
  and iterencode_dict :: "world \<Rightarrow> (ustr \<times> pyval) list \<Rightarrow> ustr option"
where
  "iterencode w PNone = Some (u ''null'')"
| "iterencode w (PBool b) = Some (if b then u ''true'' else u ''false'')"
| "iterencode w (PInt i) = Some (str_int i)"
| "iterencode w (PFloat f) = (if out_of_range_float f then None else Some (repr w (PFloat f)))"
| "iterencode w (PStr s) = Some (encode_basestring_ascii s)"
| "iterencode w (PList xs) =
     (if xs = [] then Some (u ''[]'')
      else case iterencode_list w xs of None \<Rightarrow> None | Some t \<Rightarrow> Some ([91] @ t @ [93]))"
| "iterencode w (PDict kvs) =
     (if kvs = [] then Some (u ''{}'')
      else case iterencode_dict w kvs of None \<Rightarrow> None | Some t \<Rightarrow> Some ([123] @ t @ [125]))"
| "iterencode_list w [] = Some []"
| "iterencode_list w (x # xs) =
     (case iterencode w x of None \<Rightarrow> None
      | Some t \<Rightarrow>
          if xs = [] then Some t
          else case iterencode_list w xs of None \<Rightarrow> None | Some ts \<Rightarrow> Some (t @ u '', '' @ ts))"
| "iterencode_dict w [] = Some []"
| "iterencode_dict w ((k, v) # kvs) =
     (case iterencode w v of None \<Rightarrow> None
      | Some t \<Rightarrow>
          if kvs = [] then Some (encode_basestring_ascii k @ u '': '' @ t)
          else case iterencode_dict w kvs of None \<Rightarrow> None
               | Some ts \<Rightarrow> Some (encode_basestring_ascii k @ u '': '' @ t @ u '', '' @ ts))"

definition json_dumps :: "world \<Rightarrow> pyval \<Rightarrow> ustr option" where
  "json_dumps w obj = iterencode w obj"

text \<open>The text handed to the connection for a request made with \<open>json=\<close>.\<close>

definition wire_body :: "world \<Rightarrow> request \<Rightarrow> ustr option" where
  "wire_body w req = json_dumps w (json_body req)"

subsection \<open>Decoding\<close>

text \<open>The scanner's \<open>WHITESPACE\<close> pattern, and a decimal digit.\<close>

definition is_ws :: "nat \<Rightarrow> bool" where
  "is_ws c = (c = 32 \<or> c = 9 \<or> c = 10 \<or> c = 13)"

definition skip_ws :: "ustr \<Rightarrow> ustr" where
  "skip_ws s = dropWhile is_ws s"

definition is_digit :: "nat \<Rightarrow> bool" where
  "is_digit c = (48 \<le> c \<and> c \<le> 57)"

text \<open>\<open>_decode_uXXXX\<close>: four hexadecimal digits; \<open>BACKSLASH\<close>: the short escapes.\<close>

definition hex_value :: "nat \<Rightarrow> nat option" where
  "hex_value c =
     (if 48 \<le> c \<and> c \<le> 57 then Some (c - 48)
      else if 97 \<le> c \<and> c \<le> 102 then Some (c - 87)
      else if 65 \<le> c \<and> c \<le> 70 then Some (c - 55)
      else None)"

definition decode_uXXXX :: "ustr \<Rightarrow> nat option" where
  "decode_uXXXX s =
     (case map hex_value (take 4 s) of
        [Some a, Some b, Some c, Some d] \<Rightarrow> Some (((a * 16 + b) * 16 + c) * 16 + d)
      | _ \<Rightarrow> None)"

definition backslash :: "nat \<Rightarrow> nat option" where
  "backslash e =
     (if e = 34 then Some 34
      else if e = 92 then Some 92
      else if e = 47 then Some 47
      else if e = 98 then Some 8
      else if e = 102 then Some 12
      else if e = 110 then Some 10
      else if e = 114 then Some 13
      else if e = 116 then Some 9
      else None)"

text \<open>
  \<open>py_scanstring\<close> in strict mode, from just after the opening quote: the characters read
  so far, then the string and what follows its closing quote. An unterminated string, an
  unknown escape and a raw control character are errors (\<open>None\<close>). A high surrogate
  escape followed by a low surrogate escape is one character.
\<close>

fun scanstring :: "ustr \<Rightarrow> ustr \<Rightarrow> (ustr \<times> ustr) option" where
  "scanstring [] chunks = None"
| "scanstring (c # cs) chunks =
     (if c = 34 then Some (chunks, cs)
      else if c = 92 then
        (case cs of
           [] \<Rightarrow> None
         | esc # cs1 \<Rightarrow>
             if esc = 117 then
               (case decode_uXXXX cs1 of
                  None \<Rightarrow> None
                | Some uni \<Rightarrow>
                    if 0xD800 \<le> uni \<and> uni \<le> 0xDBFF \<and> take 2 (drop 4 cs1) = [92, 117] then
                      (case decode_uXXXX (drop 6 cs1) of
                         None \<Rightarrow> None
                       | Some uni2 \<Rightarrow>
                           if 0xDC00 \<le> uni2 \<and> uni2 \<le> 0xDFFF then
                             scanstring (drop 10 cs1)
                               (chunks @ [0x10000 + ((uni - 0xD800) * 1024 + (uni2 - 0xDC00))])
                           else scanstring (drop 4 cs1) (chunks @ [uni]))
                    else scanstring (drop 4 cs1) (chunks @ [uni]))
             else
               (case backslash esc of
                  None \<Rightarrow> None
                | Some ch \<Rightarrow> scanstring cs1 (chunks @ [ch])))
      else if c < 32 then None
      else scanstring cs (chunks @ [c]))"

text \<open>
  \<open>NUMBER_RE\<close>: the integer part \<open>-?(0|[1-9]\d*)\<close>, then an optional fraction
  \<open>\.\d+\<close> and an optional exponent \<open>[eE][-+]?\d+\<close>. With a fraction or an exponent the
  number is a float, read by the interpreter's \<open>float\<close>; otherwise it is an \<open>int\<close>.
\<close>

definition match_integer :: "ustr \<Rightarrow> (ustr \<times> ustr) option" where
  "match_integer s =
     (let sign = (if take 1 s = [45] then [45] else []);
          s1 = drop (length sign) s
      in case s1 of
           [] \<Rightarrow> None
         | d # ds \<Rightarrow>
             if d = 48 then Some (sign @ [48], ds)
             else if is_digit d then
               Some (sign @ d # takeWhile is_digit ds, dropWhile is_digit ds)
             else None)"

definition match_frac :: "ustr \<Rightarrow> ustr \<times> ustr" where
  "match_frac s =
     (case s of
        c # d # ds \<Rightarrow>
          if c = 46 \<and> is_digit d then (c # d # takeWhile is_digit ds, dropWhile is_digit ds)
          else ([], s)
      | _ \<Rightarrow> ([], s))"

definition match_exp :: "ustr \<Rightarrow> ustr \<times> ustr" where
  "match_exp s =
     (case s of
        [] \<Rightarrow> ([], s)
      | e # s1 \<Rightarrow>
          if e = 101 \<or> e = 69 then
            (let sign = (if take 1 s1 = [45] \<or> take 1 s1 = [43] then take 1 s1 else []);
                 s2 = drop (length sign) s1
             in case s2 of
                  [] \<Rightarrow> ([], s)
                | d # ds \<Rightarrow>
                    if is_digit d then
                      (e # sign @ d # takeWhile is_digit ds, dropWhile is_digit ds)
                    else ([], s))
          else ([], s))"

definition int_of_str :: "ustr \<Rightarrow> int" where
  "int_of_str s =
     (if take 1 s = [45] then - int (digits_value (drop 1 s)) else int (digits_value s))"

definition match_number :: "world \<Rightarrow> ustr \<Rightarrow> (pyval \<times> ustr) option" where
  "match_number w s =
     (case match_integer s of
        None \<Rightarrow> None
      | Some (integer, s1) \<Rightarrow>
          (case match_frac s1 of (frac, s2) \<Rightarrow>
           case match_exp s2 of (exp, s3) \<Rightarrow>
             if frac \<noteq> [] \<or> exp \<noteq> [] then
               Some (PFloat (float_of_str w (integer @ frac @ exp)), s3)
             else Some (PInt (int_of_str integer), s3)))"

text \<open>
  \<open>dict(pairs)\<close>: a key that comes again keeps its place and takes the later value.
\<close>

definition py_dict :: "(ustr \<times> pyval) list \<Rightarrow> (ustr \<times> pyval) list" where
  "py_dict pairs = foldl (\<lambda>d (k, v). AList.update k v d) [] pairs"

text \<open>
  \<open>scan_once\<close>, \<open>JSONArray\<close> and \<open>JSONObject\<close>. \<open>parse_array\<close> starts at the first
  character of an element, \<open>parse_object\<close> just after the opening quote of a key. The
  functions call each other; the first argument bounds the number of nested calls, and
  running out of it is an error like any other.
\<close>

fun scan_once :: "world \<Rightarrow> nat \<Rightarrow> ustr \<Rightarrow> (pyval \<times> ustr) option"
  and parse_array :: "world \<Rightarrow> nat \<Rightarrow> ustr \<Rightarrow> pyval list \<Rightarrow> (pyval \<times> ustr) option"
  and parse_object :: "world \<Rightarrow> nat \<Rightarrow> ustr \<Rightarrow> (ustr \<times> pyval) list \<Rightarrow> (pyval \<times> ustr) option"
where
  "scan_once w 0 s = None"
| "scan_once w (Suc n) s =
     (case s of
        [] \<Rightarrow> None
      | c # cs \<Rightarrow>
          if c = 34 then
            (case scanstring cs [] of
               None \<Rightarrow> None
             | Some (str, rest) \<Rightarrow> Some (PStr str, rest))
          else if c = 123 then
            (case skip_ws cs of
               [] \<Rightarrow> None
             | d # ds \<Rightarrow>
                 if d = 125 then Some (PDict [], ds)
                 else if d = 34 then parse_object w n ds []
                 else None)
          else if c = 91 then
            (case skip_ws cs of
               [] \<Rightarrow> None
             | d # ds \<Rightarrow>
                 if d = 93 then Some (PList [], ds)
                 else parse_array w n (d # ds) [])
          else if take 4 s = u ''null'' then Some (PNone, drop 4 s)
          else if take 4 s = u ''true'' then Some (PBool True, drop 4 s)
          else if take 5 s = u ''false'' then Some (PBool False, drop 5 s)
          else
            (case match_number w s of
               Some r \<Rightarrow> Some r
             | None \<Rightarrow>
                 if take 3 s = u ''NaN'' then Some (PFloat 0x7FF8000000000000, drop 3 s)
                 else if take 8 s = u ''Infinity'' then Some (PFloat 0x7FF0000000000000, drop 8 s)
                 else if take 9 s = u ''-Infinity'' then Some (PFloat 0xFFF0000000000000, drop 9 s)
                 else None))"
| "parse_array w 0 s values = None"
| "parse_array w (Suc n) s values =
     (case scan_once w n s of
        None \<Rightarrow> None
      | Some (value, rest) \<Rightarrow>
          (case skip_ws rest of
             [] \<Rightarrow> None
           | c # cs \<Rightarrow>
               if c = 93 then Some (PList (values @ [value]), cs)
               else if c = 44 then parse_array w n (skip_ws cs) (values @ [value])
               else None))"
| "parse_object w 0 s pairs = None"
| "parse_object w (Suc n) s pairs =
     (case scanstring s [] of
        None \<Rightarrow> None
      | Some (key, rest) \<Rightarrow>
          (case skip_ws rest of
             [] \<Rightarrow> None
           | c # cs \<Rightarrow>
               if c \<noteq> 58 then None
               else
                 (case scan_once w n (skip_ws cs) of
                    None \<Rightarrow> None
                  | Some (value, rest2) \<Rightarrow>
                      (case skip_ws rest2 of
                         [] \<Rightarrow> None
                       | d # ds \<Rightarrow>
                           if d = 125 then Some (PDict (py_dict (pairs @ [(key, value)])), ds)
                           else if d = 44 then
                             (case skip_ws ds of
                                [] \<Rightarrow> None
                              | q # qs \<Rightarrow>
                                  if q = 34 then parse_object w n qs (pairs @ [(key, value)])
                                  else None)
                           else None))))"

text \<open>
  \<open>json.loads\<close>: a leading byte order mark is refused, white space around the value is
  skipped, and anything else after the value is an error. One nested call per character is
  more than any text needs.
\<close>

definition json_loads :: "world \<Rightarrow> ustr \<Rightarrow> pyval option" where
  "json_loads w s =
     (if take 1 s = [0xFEFF] then None
      else case scan_once w (Suc (length s)) (skip_ws s) of
             None \<Rightarrow> None
           | Some (obj, rest) \<Rightarrow> if skip_ws rest = [] then Some obj else None)"

subsection \<open>Values that come back unchanged\<close>

text \<open>
  A string comes back unchanged when its characters are code points (below \<open>0x110000\<close>)
  and no high surrogate is directly followed by a low surrogate (the encoder would write
  them as two escapes, which the decoder reads as one character).
\<close>

definition is_high_surrogate :: "nat \<Rightarrow> bool" where
  "is_high_surrogate c = (0xD800 \<le> c \<and> c \<le> 0xDBFF)"

definition is_low_surrogate :: "nat \<Rightarrow> bool" where
  "is_low_surrogate c = (0xDC00 \<le> c \<and> c \<le> 0xDFFF)"

fun valid_str :: "ustr \<Rightarrow> bool" where
  "valid_str [] = True"
| "valid_str [c] = (c < 0x110000)"
| "valid_str (c # d # cs) =
     (c < 0x110000 \<and> \<not> (is_high_surrogate c \<and> is_low_surrogate d) \<and> valid_str (d # cs))"

text \<open>
  A value comes back unchanged when it holds no float, its strings and keys are as above,
  and no dictionary has a key twice.
\<close>

fun json_exact :: "pyval \<Rightarrow> bool"
  and json_exact_list :: "pyval list \<Rightarrow> bool"
  and json_exact_dict :: "(ustr \<times> pyval) list \<Rightarrow> bool"
where
  "json_exact PNone = True"
| "json_exact (PBool b) = True"
| "json_exact (PInt i) = True"
| "json_exact (PFloat f) = False"
| "json_exact (PStr s) = valid_str s"
| "json_exact (PList xs) = json_exact_list xs"
| "json_exact (PDict kvs) = (distinct (map fst kvs) \<and> json_exact_dict kvs)"
| "json_exact_list [] = True"
| "json_exact_list (x # xs) = (json_exact x \<and> json_exact_list xs)"
| "json_exact_dict [] = True"
| "json_exact_dict ((k, v) # kvs) = (valid_str k \<and> json_exact v \<and> json_exact_dict kvs)"

text \<open>Notions used in the proofs: the escaped characters of a string; a character with a
  short escape; a text that starts with a delimiter or is empty; a text that starts a value;
  the nesting a value needs; what it means for the decoder to read back a value, the
  elements of a list and the items of a dictionary; strings of small code points.\<close>

definition escaped_text :: "ustr \<Rightarrow> ustr" where
  "escaped_text s = concat (map escape_ascii s)"

definition short_escape :: "nat \<Rightarrow> bool" where
  "short_escape c = (c = 92 \<or> c = 34 \<or> c = 8 \<or> c = 12 \<or> c = 10 \<or> c = 13 \<or> c = 9)"

fun delimited :: "ustr \<Rightarrow> bool" where
  "delimited [] = True"
| "delimited (c # cs) = (c = 44 \<or> c = 93 \<or> c = 125)"

fun starts_value :: "ustr \<Rightarrow> bool" where
  "starts_value [] = False"
| "starts_value (c # cs) = (\<not> is_ws c \<and> c \<noteq> 93 \<and> c \<noteq> 0xFEFF)"

fun cost :: "pyval \<Rightarrow> nat"
  and cost_list :: "pyval list \<Rightarrow> nat"
  and cost_dict :: "(ustr \<times> pyval) list \<Rightarrow> nat"
where
  "cost (PList xs) = Suc (cost_list xs)"
| "cost (PDict kvs) = Suc (cost_dict kvs)"
| "cost v = 1"
| "cost_list [] = 0"
| "cost_list (x # xs) = Suc (cost x + cost_list xs)"
| "cost_dict [] = 0"
| "cost_dict ((k, v) # kvs) = Suc (cost v + cost_dict kvs)"

definition decodes :: "world \<Rightarrow> pyval \<Rightarrow> bool" where
  "decodes w v \<longleftrightarrow>
     (\<exists>t. iterencode w v = Some t \<and> starts_value t \<and> cost v \<le> length t
        \<and> (\<forall>n rest. cost v \<le> n \<longrightarrow> delimited rest \<longrightarrow>
              scan_once w n (t @ rest) = Some (v, rest)))"

definition decodes_list :: "world \<Rightarrow> pyval list \<Rightarrow> bool" where
  "decodes_list w xs \<longleftrightarrow>
     (\<exists>t. iterencode_list w xs = Some t \<and> starts_value t \<and> cost_list xs \<le> Suc (length t)
        \<and> (\<forall>n rest acc. cost_list xs \<le> n \<longrightarrow>
              parse_array w n (t @ 93 # rest) acc = Some (PList (acc @ xs), rest)))"

definition decodes_dict :: "world \<Rightarrow> (ustr \<times> pyval) list \<Rightarrow> bool" where
  "decodes_dict w kvs \<longleftrightarrow>
     (\<exists>t. iterencode_dict w kvs = Some (34 # t) \<and> cost_dict kvs \<le> length t
        \<and> (\<forall>n rest acc. cost_dict kvs \<le> n \<longrightarrow>
              parse_object w n (t @ 125 # rest) acc
              = Some (PDict (py_dict (acc @ kvs)), rest)))"

definition latin :: "ustr \<Rightarrow> bool" where
  "latin s = list_all (\<lambda>c. c < 256) s"

definition ascii :: "ustr \<Rightarrow> bool" where
  "ascii s = list_all (\<lambda>c. c < 128) s"

section \<open>Example worlds\<close>

text \<open>
  Two standard outputs: UTF-8, which encodes every code point but the surrogates, and
  ASCII, which encodes nothing beyond ASCII. A world with a standard output, whose endpoint
  behaves as \<open>server\<close> says, with the interpreter's texts for the exceptions the examples
  raise.
\<close>

definition utf8_stdout :: "nat \<Rightarrow> bool" where
  "utf8_stdout c = (c < 0x110000 \<and> \<not> (0xD800 \<le> c \<and> c \<le> 0xDFFF))"

definition ascii_stdout :: "nat \<Rightarrow> bool" where
  "ascii_stdout c = False"

definition example_world :: "(nat \<Rightarrow> bool) \<Rightarrow> (request \<Rightarrow> exn + response) \<Rightarrow> world" where
  "example_world enc server =
     \<lparr>argv = [u ''script.py''], environ = [], post = server,
      exn_message = (\<lambda>e. case e of
          KeyError (PStr k) \<Rightarrow> [39] @ k @ [39]
        | KeyError k \<Rightarrow> u ''0''
        | IndexError \<Rightarrow> u ''list index out of range''
        | UnicodeEncodeError s i \<Rightarrow> u ''codec cannot encode character in position '' @ str_int (int i)
        | _ \<Rightarrow> u ''object is not subscriptable''),
      repr = (\<lambda>v. u ''<value>''),
      float_of_str = (\<lambda>s. 0),
      stdout_encodes = enc\<rparr>"

text \<open>
  Exceptions of the library and responses: the spec's two mocked answers (200 with a
  greeting, 500 with \<open>server error\<close>), a 200 whose body is not JSON, a 200 whose JSON has
  no \<open>choices\<close>, one whose \<open>choices\<close> is empty, and one whose content ends in a lone
  surrogate.
\<close>

definition connection_refused :: exn where
  "connection_refused = LibraryError (u ''Connection refused'')"

definition not_json :: exn where
  "not_json = LibraryError (u ''Expecting value: line 1 column 1 (char 0)'')"

definition response_hello :: response where
  \<open>response_hello =
     \<lparr>status_code = 200,
      body_text = u ''{"choices":[{"message":{"content":"hello"}}]}'',
      json = Inr (PDict [(u ''choices'', PList [PDict [(u ''message'',
                PDict [(u ''content'', PStr (u ''hello''))])]])])\<rparr>\<close>

definition response_500 :: response where
  "response_500 = \<lparr>status_code = 500, body_text = u ''server error'', json = Inl not_json\<rparr>"

definition response_not_json :: response where
  "response_not_json = \<lparr>status_code = 200, body_text = u ''<html>'', json = Inl not_json\<rparr>"

definition response_no_choices :: response where
  "response_no_choices = \<lparr>status_code = 200, body_text = u ''{}'', json = Inr (PDict [])\<rparr>"

definition response_empty_choices :: response where
  \<open>response_empty_choices =
     \<lparr>status_code = 200, body_text = u ''{"choices": []}'',
      json = Inr (PDict [(u ''choices'', PList [])])\<rparr>\<close>

definition response_surrogate :: response where
  \<open>response_surrogate =
     \<lparr>status_code = 200,
      body_text = u ''{"choices":[{"message":{"content":"ab'' @ [92] @ u ''ud800"}}]}'',
      json = Inr (PDict [(u ''choices'', PList [PDict [(u ''message'',
                PDict [(u ''content'', PStr [97, 98, 0xD800])])]])])\<rparr>\<close>

section \<open>Properties\<close>

lemma u_x: "u ''x'' = [120]"
  by (simp add: u_def)

lemma str_times_single: "str_times [c] n = replicate n c"
  by (induction n) (simp_all add: str_times_def)

text \<open>
  C1. In both scripts the filler string built at module level has length exactly 61440 and
  every one of its characters is the same one, the ASCII letter x (code point 120, one byte
  in UTF-8, so 61440 characters are 61440 bytes).
\<close>

theorem large_content_is_60KiB_of_x:
  "length large_content_large_stdin = 61440
   \<and> set large_content_large_stdin = {120}
   \<and> length large_content_stdin = 61440
   \<and> set large_content_stdin = {120}
   \<and> large_content_large_stdin = replicate 61440 120
   \<and> large_content_stdin = replicate 61440 120"
  by (simp add: large_content_large_stdin_def large_content_stdin_def u_x str_times_single)


subsection \<open>Strings and numerals\<close>

lemma u_inj: "u a = u b \<longleftrightarrow> a = b"
  unfolding u_def by (rule inj_map_eq_map) (simp add: inj_def)

lemma str_61440: "str_int 61440 = u ''61440''"
  by (simp add: str_int_def str_nat.simps u_def)

lemma digits_value_snoc: "digits_value (ds @ [d]) = 10 * digits_value ds + (d - 48)"
  by (simp add: digits_value_def)

lemma digits_value_str_nat: "digits_value (str_nat n) = n"
proof (induction n rule: str_nat.induct)
  case (1 n)
  show ?case
  proof (cases "n < 10")
    case True
    then show ?thesis
      by (subst str_nat.simps) (simp add: digits_value_def)
  next
    case False
    with "1" have "digits_value (str_nat (n div 10)) = n div 10"
      by simp
    with False show ?thesis
      by (subst str_nat.simps) (simp add: digits_value_snoc)
  qed
qed

lemma str_nat_inj: "str_nat m = str_nat n \<Longrightarrow> m = n"
  by (metis digits_value_str_nat)

lemma str_int_of_nat: "str_int (int n) = str_nat n"
  by (simp add: str_int_def)

subsection \<open>The filler string\<close>

lemma take_large_content_large_stdin: "take 100 large_content_large_stdin = replicate 100 120"
  by (simp add: large_content_large_stdin_def u_x str_times_single)

lemma length_large_content_large_stdin: "length large_content_large_stdin = 61440"
  by (simp add: large_content_large_stdin_def u_x str_times_single)

lemma take_large_content_stdin: "take 100 large_content_stdin = replicate 100 120"
  by (simp add: large_content_stdin_def u_x str_times_single)

lemma length_large_content_stdin: "length large_content_stdin = 61440"
  by (simp add: large_content_stdin_def u_x str_times_single)


subsection \<open>The payloads\<close>

lemma message_content_large_stdin:
  "message_content payload_large_stdin =
     Inr (PStr (u ''This is a large content test. Content length: '' @ u ''61440''
                @ u '' bytes. First 100 chars: '' @ replicate 100 120))"
  by (simp add: message_content_def payload_large_stdin_def and_then_def norm_index_def
      take_large_content_large_stdin length_large_content_large_stdin str_61440 u_inj)

lemma message_content_stdin:
  "message_content payload_stdin =
     Inr (PStr (u ''Process this large content (first 100 chars): '' @ replicate 100 120))"
  by (simp add: message_content_def payload_stdin_def and_then_def norm_index_def
      take_large_content_stdin u_inj)

lemma size_not_in_content_stdin:
  "\<not> sublist (u ''61440'')
       (u ''Process this large content (first 100 chars): '' @ replicate 100 120)"
proof
  assume "sublist (u ''61440'')
       (u ''Process this large content (first 100 chars): '' @ replicate 100 120)"
  then have "set (u ''61440'')
      \<subseteq> set (u ''Process this large content (first 100 chars): '' @ replicate 100 120)"
    by (rule set_mono_sublist)
  then show False
    by (simp add: u_def)
qed

text \<open>
  C2, as stated, for test-stdin.py: the content of the message would contain
  both the decimal size of the filler string and its first 100 characters. The content is
  the text below, and the size does not occur in it: the digit 6 of 61440 is nowhere in it.
\<close>

theorem content_stdin_reports_size_counterexample:
  "message_content payload_stdin =
     Inr (PStr (u ''Process this large content (first 100 chars): ''
                @ take 100 large_content_stdin))
   \<and> \<not> sublist (str_int (int (length large_content_stdin)))
         (u ''Process this large content (first 100 chars): '' @ take 100 large_content_stdin)"
  using size_not_in_content_stdin
  by (simp add: message_content_stdin length_large_content_stdin str_61440
      take_large_content_stdin)

text \<open>
  C2, amended. Each payload has exactly one message. In test-large-stdin.py its content is
  the fixed text with the filler's size (\<open>len(large_content)\<close> in decimal) and the first
  100 characters of the filler, so both occur in it. In test-stdin.py its content is a
  fixed text followed by the first 100 characters of the filler; the size does not occur
  in it.
\<close>

theorem content_of_both_payloads:
  "message_count payload_large_stdin = Inr 1
   \<and> message_content payload_large_stdin =
       Inr (PStr (u ''This is a large content test. Content length: ''
                  @ str_int (int (length large_content_large_stdin))
                  @ u '' bytes. First 100 chars: '' @ take 100 large_content_large_stdin))
   \<and> sublist (str_int (int (length large_content_large_stdin)))
        (u ''This is a large content test. Content length: ''
         @ str_int (int (length large_content_large_stdin))
         @ u '' bytes. First 100 chars: '' @ take 100 large_content_large_stdin)
   \<and> suffix (take 100 large_content_large_stdin)
        (u ''This is a large content test. Content length: ''
         @ str_int (int (length large_content_large_stdin))
         @ u '' bytes. First 100 chars: '' @ take 100 large_content_large_stdin)
   \<and> length (take 100 large_content_large_stdin) = 100
   \<and> message_count payload_stdin = Inr 1
   \<and> message_content payload_stdin =
       Inr (PStr (u ''Process this large content (first 100 chars): ''
                  @ take 100 large_content_stdin))
   \<and> suffix (take 100 large_content_stdin)
        (u ''Process this large content (first 100 chars): '' @ take 100 large_content_stdin)
   \<and> length (take 100 large_content_stdin) = 100
   \<and> \<not> sublist (str_int (int (length large_content_stdin)))
        (u ''Process this large content (first 100 chars): '' @ take 100 large_content_stdin)"
proof -
  have "message_count payload_large_stdin = Inr 1"
    by (simp add: message_count_def payload_large_stdin_def and_then_def u_inj)
  moreover have "message_count payload_stdin = Inr 1"
    by (simp add: message_count_def payload_stdin_def and_then_def u_inj)
  moreover have "sublist (str_int (int (length large_content_large_stdin)))
        (u ''This is a large content test. Content length: ''
         @ str_int (int (length large_content_large_stdin))
         @ u '' bytes. First 100 chars: '' @ take 100 large_content_large_stdin)"
    by (rule sublist_appendI)
  moreover have "suffix (take 100 large_content_large_stdin)
        (u ''This is a large content test. Content length: ''
         @ str_int (int (length large_content_large_stdin))
         @ u '' bytes. First 100 chars: '' @ take 100 large_content_large_stdin)"
    by (simp add: suffix_def)
  moreover have "suffix (take 100 large_content_stdin)
        (u ''Process this large content (first 100 chars): '' @ take 100 large_content_stdin)"
    by (simp add: suffix_def)
  moreover have "\<not> sublist (str_int (int (length large_content_stdin)))
        (u ''Process this large content (first 100 chars): '' @ take 100 large_content_stdin)"
    using size_not_in_content_stdin
    by (simp add: length_large_content_stdin str_61440 take_large_content_stdin)
  ultimately show ?thesis
    using message_content_large_stdin message_content_stdin
    by (simp add: length_large_content_large_stdin length_large_content_stdin str_61440
        take_large_content_large_stdin take_large_content_stdin)
qed

subsection \<open>The tool list\<close>

lemma foldl_append_map: "foldl (\<lambda>acc i. acc @ [f i]) acc xs = acc @ map f xs"
  by (induction xs arbitrary: acc) simp_all

lemma large_tools_map: "large_tools = map large_tool [0..<50]"
  by (simp add: large_tools_def foldl_append_map)

lemma large_tools_nth: "i < 50 \<Longrightarrow> large_tools ! i = large_tool i"
  by (simp add: large_tools_map)

lemma tool_name_large_tool:
  "tool_name (large_tool i) = Inr (PStr (u ''large_tool_'' @ str_int (int i)))"
  by (simp add: tool_name_def large_tool_def and_then_def u_inj)

lemma tool_type_large_tool:
  "getitem_str (large_tool i) (u ''type'') = Inr (PStr (u ''function''))"
  by (simp add: large_tool_def)

lemma tool_name_inj: "inj (\<lambda>i. tool_name (large_tool i))"
  by (rule injI) (simp add: tool_name_large_tool str_int_of_nat str_nat_inj)

text \<open>
  C4. The tool list of test-stdin.py has exactly 50 elements; for each \<open>i\<close> from 0 to 49
  the element at index \<open>i\<close> has type \<open>function\<close> and the name \<open>large_tool_\<close> followed by
  \<open>i\<close> in decimal; no two elements have the same name.
\<close>

theorem large_tools_fifty_named:
  "length large_tools = 50
   \<and> (\<forall>i<50. getitem_str (large_tools ! i) (u ''type'') = Inr (PStr (u ''function''))
         \<and> tool_name (large_tools ! i) = Inr (PStr (u ''large_tool_'' @ str_int (int i))))
   \<and> distinct (map tool_name large_tools)"
proof -
  have "distinct (map (\<lambda>i. tool_name (large_tool i)) [0..<50])"
    using tool_name_inj by (simp add: distinct_map inj_on_def inj_def)
  then have "distinct (map tool_name large_tools)"
    by (simp add: large_tools_map comp_def)
  moreover have "length large_tools = 50"
    by (simp add: large_tools_map)
  ultimately show ?thesis
    by (simp add: large_tools_nth tool_name_large_tool tool_type_large_tool)
qed

theorem large_tools_fifty_named_witness:
  "(49::nat) < 50
   \<and> getitem_str (large_tools ! 49) (u ''type'') = Inr (PStr (u ''function''))
   \<and> tool_name (large_tools ! 49) = Inr (PStr (u ''large_tool_49''))"
proof -
  have "str_int 49 = u ''49''"
    by (simp add: str_int_def str_nat.simps u_def)
  then show ?thesis
    using large_tools_fifty_named [THEN conjunct2, THEN conjunct1, rule_format, of 49]
    by (simp add: u_def)
qed

subsection \<open>Printing, and the request a run makes\<close>

lemma py_print_ok:
  "can_print w s \<Longrightarrow> py_print w s c = (Inr (), c\<lparr>printed := printed c @ [s]\<rparr>)"
  by (simp add: py_print_def)

lemma py_print_fails:
  "\<not> can_print w s \<Longrightarrow>
   py_print w s c = (Inl (UnicodeEncodeError s (first_unencodable w s)), c)"
  by (simp add: py_print_def)

lemma can_print_append: "can_print w (a @ b) \<longleftrightarrow> can_print w a \<and> can_print w b"
  by (simp add: can_print_def)

lemma can_print_ascii: "list_all (\<lambda>c. c < 128) s \<Longrightarrow> can_print w s"
  by (induction s) (simp_all add: can_print_def encodable_def)

lemma str_50: "str_int 50 = u ''50''"
  by (simp add: str_int_def str_nat.simps u_def)

lemma can_print_banner:
  "can_print w (u ''Testing stdin implementation with large prompt...'')"
  "can_print w (u ''Prompt size: '' @ str_int (int (length large_content_large_stdin))
                @ u '' bytes'')"
  "can_print w (u ''Prompt size: '' @ str_int (int (length large_content_stdin))
                @ u '' bytes'')"
  "can_print w (u ''Tools count: '' @ str_int (int (length large_tools)))"
  by (rule can_print_ascii,
      simp add: length_large_content_large_stdin length_large_content_stdin str_61440
        large_tools_map str_50 u_def)+

lemma requested_py_print: "requested (snd (py_print w s c)) = requested c"
  by (simp add: py_print_def)

lemma requested_try_block_large_stdin:
  "requested (snd (try_block_large_stdin w c)) = requested c @ [request_large_stdin]"
  by (simp add: try_block_large_stdin_def then_do_def requests_post_def evaluate_def
      py_print_def split: sum.splits prod.splits)

lemma requested_try_block_stdin:
  "requested (snd (try_block_stdin w c)) = requested c @ [request_stdin]"
  by (simp add: try_block_stdin_def then_do_def requests_post_def evaluate_def
      py_print_def split: sum.splits prod.splits)

lemma requested_try_except:
  "requested (snd (try_except body (\<lambda>e. py_print w (f e)) c)) = requested (snd (body c))"
  by (simp add: try_except_def requested_py_print split: sum.splits prod.splits)

lemma posted_large_stdin: "posted (main_large_stdin w) = [request_large_stdin]"
  by (simp add: main_large_stdin_def test_stdin_implementation_large_stdin_def finish_def
      start_def then_do_def py_print_ok can_print_banner requested_try_except
      requested_try_block_large_stdin)

lemma posted_stdin: "posted (main_stdin w) = [request_stdin]"
  by (simp add: main_stdin_def test_stdin_implementation_stdin_def finish_def
      start_def then_do_def py_print_ok can_print_banner requested_try_except
      requested_try_block_stdin)

text \<open>
  C9. Whatever the world, test-large-stdin.py hands \<open>requests.post\<close> one request, whose
  JSON payload is a dictionary with exactly the two keys \<open>model\<close> and \<open>messages\<close>;
  looking up \<open>tools\<close> in it raises \<open>KeyError\<close>.
\<close>

theorem payload_large_stdin_has_no_tools:
  "map json_body (posted (main_large_stdin w)) = [payload_large_stdin]
   \<and> keys payload_large_stdin = [u ''model'', u ''messages'']
   \<and> u ''tools'' \<notin> set (keys payload_large_stdin)
   \<and> getitem_str payload_large_stdin (u ''tools'') = Inl (KeyError (PStr (u ''tools'')))"
  by (simp add: posted_large_stdin request_large_stdin_def payload_large_stdin_def u_inj)

text \<open>
  C10. Two runs of the same script in any two worlds (command line, environment
  variables, endpoint behaviour, interpreter texts) hand \<open>requests.post\<close> the same single
  request: same URL, same payload (model, messages and, for test-stdin.py, the tool list),
  same headers.
\<close>

theorem payload_is_the_same_in_every_world:
  "posted (main_large_stdin w1) = posted (main_large_stdin w2)
   \<and> posted (main_large_stdin w1) =
       [\<lparr>url = endpoint, json_body = payload_large_stdin, headers = content_type_json\<rparr>]
   \<and> posted (main_stdin w1) = posted (main_stdin w2)
   \<and> posted (main_stdin w1) =
       [\<lparr>url = endpoint, json_body = payload_stdin, headers = content_type_json\<rparr>]"
  by (simp add: posted_large_stdin posted_stdin request_large_stdin_def request_stdin_def)


subsection \<open>The request body decodes to the payload\<close>

lemma hex_value_hex_digit: "d < 16 \<Longrightarrow> hex_value (hex_digit d) = Some d"
  by (simp add: hex_value_def hex_digit_def)

lemma hex_sum:
  "((n div 4096 * 16 + n div 256 mod 16) * 16 + n div 16 mod 16) * 16 + n mod 16 = (n::nat)"
proof -
  have a: "n div 256 = n div 16 div 16" and b: "n div 4096 = n div 16 div 16 div 16"
    by (simp_all add: div_mult2_eq)
  define q1 where "q1 = n div 16"
  define q2 where "q2 = q1 div 16"
  define q3 where "q3 = q2 div 16"
  have 1: "n = q1 * 16 + n mod 16" by (simp add: q1_def)
  have 2: "q1 = q2 * 16 + q1 mod 16" by (simp add: q2_def)
  have 3: "q2 = q3 * 16 + q2 mod 16" by (simp add: q3_def)
  have "((q3 * 16 + q2 mod 16) * 16 + q1 mod 16) * 16 + n mod 16 = n"
    using 1 2 3 by simp
  then show ?thesis
    by (simp add: a b q1_def q2_def q3_def)
qed

lemma decode_hex4: "n < 65536 \<Longrightarrow> decode_uXXXX (hex4 n @ rest) = Some n"
proof -
  assume n: "n < 65536"
  then have d: "n div 4096 mod 16 = n div 4096" and e: "n div 4096 < 16"
    by simp_all
  show ?thesis
    using hex_sum [of n] e
    by (simp add: decode_uXXXX_def hex4_def hex_value_hex_digit d)
qed

lemma drop_hex4: "drop 4 (hex4 n @ rest) = rest"
  by (simp add: hex4_def)

lemma take_hex4: "take 4 (hex4 n @ rest) = hex4 n"
  by (simp add: hex4_def)

lemma escaped_text_Cons: "escaped_text (c # cs) = escape_ascii c @ escaped_text cs"
  by (simp add: escaped_text_def)

lemma escaped_text_Nil: "escaped_text [] = []"
  by (simp add: escaped_text_def)

lemma valid_str_tail: "valid_str (c # cs) \<Longrightarrow> valid_str cs"
  by (cases cs) simp_all

lemma valid_str_head: "valid_str (c # cs) \<Longrightarrow> c < 0x110000"
  by (cases cs) simp_all

lemma escape_short:
  "short_escape c \<Longrightarrow> \<exists>e. escape_ascii c = [92, e] \<and> e \<noteq> 117 \<and> backslash e = Some c"
  unfolding short_escape_def escape_ascii_def backslash_def by auto

lemma escape_plain:
  "\<not> short_escape c \<Longrightarrow> 32 \<le> c \<and> c \<le> 126 \<Longrightarrow> escape_ascii c = [c]"
  unfolding short_escape_def escape_ascii_def by simp

lemma escape_bmp:
  "\<not> short_escape c \<Longrightarrow> \<not> (32 \<le> c \<and> c \<le> 126) \<Longrightarrow> c < 0x10000 \<Longrightarrow>
   escape_ascii c = [92, 117] @ hex4 c"
  unfolding short_escape_def escape_ascii_def by simp

lemma escape_astral:
  "\<not> c < 0x10000 \<Longrightarrow>
   escape_ascii c = [92, 117] @ hex4 (0xD800 + (c - 0x10000) div 1024 mod 1024)
                    @ [92, 117] @ hex4 (0xDC00 + (c - 0x10000) mod 1024)"
  unfolding escape_ascii_def Let_def by simp

lemma escape_cases:
  obtains (short) "short_escape c"
  | (plain) "\<not> short_escape c" "32 \<le> c \<and> c \<le> 126"
  | (bmp) "\<not> short_escape c" "\<not> (32 \<le> c \<and> c \<le> 126)" "c < 0x10000"
  | (astral) "\<not> short_escape c" "\<not> (32 \<le> c \<and> c \<le> 126)" "\<not> c < 0x10000"
  by blast

text \<open>What follows a high surrogate never decodes to a low surrogate.\<close>

lemma after_high_surrogate:
  assumes "valid_str (c # cs)" and "is_high_surrogate c"
    and "take 2 (escaped_text cs @ 34 # rest) = [92, 117]"
  shows "\<exists>uni2. decode_uXXXX (drop 2 (escaped_text cs @ 34 # rest)) = Some uni2
           \<and> \<not> (0xDC00 \<le> uni2 \<and> uni2 \<le> 0xDFFF)"
proof (cases cs)
  case Nil
  with assms(3) show ?thesis
    by (simp add: escaped_text_Nil)
next
  case (Cons d ds)
  with assms have nl: "\<not> is_low_surrogate d"
    by simp
  let ?T = "escaped_text ds @ 34 # rest"
  have t: "escaped_text cs @ 34 # rest = escape_ascii d @ ?T"
    by (simp add: Cons escaped_text_Cons)
  show ?thesis
  proof (cases d rule: escape_cases)
    case short
    then obtain e where "escape_ascii d = [92, e]" "e \<noteq> 117"
      using escape_short by blast
    with assms(3) show ?thesis
      unfolding t by simp
  next
    case plain
    then have "escape_ascii d = [d]" "d \<noteq> 92"
      by (simp_all add: escape_plain) (simp add: short_escape_def)
    with assms(3) show ?thesis
      unfolding t by simp
  next
    case bmp
    then have "escape_ascii d = [92, 117] @ hex4 d"
      by (simp add: escape_bmp)
    with bmp nl show ?thesis
      unfolding t by (simp add: decode_hex4 is_low_surrogate_def)
  next
    case astral
    define s1 where "s1 = 0xD800 + (d - 0x10000) div 1024 mod 1024"
    have "escape_ascii d = [92, 117] @ (hex4 s1 @ [92, 117] @ hex4 (0xDC00 + (d - 0x10000) mod 1024))"
      using astral by (simp add: escape_astral s1_def)
    moreover have "s1 < 65536" "\<not> (0xDC00 \<le> s1 \<and> s1 \<le> 0xDFFF)"
      by (simp_all add: s1_def)
    ultimately show ?thesis
      unfolding t by (simp add: decode_hex4)
  qed
qed

lemma length_hex4: "length (hex4 n) = 4"
  by (simp add: hex4_def)

lemma scanstring_u:
  assumes "length h = 4" and "decode_uXXXX (h @ T) = Some uni"
  shows "scanstring (92 # 117 # h @ T) acc =
     (if 0xD800 \<le> uni \<and> uni \<le> 0xDBFF \<and> take 2 T = [92, 117] then
        (case decode_uXXXX (drop 2 T) of
           None \<Rightarrow> None
         | Some uni2 \<Rightarrow>
             if 0xDC00 \<le> uni2 \<and> uni2 \<le> 0xDFFF then
               scanstring (drop 6 T) (acc @ [0x10000 + ((uni - 0xD800) * 1024 + (uni2 - 0xDC00))])
             else scanstring T (acc @ [uni]))
      else scanstring T (acc @ [uni]))"
proof -
  have "drop 4 (h @ T) = T" "drop 10 (h @ T) = drop 6 T" "drop 6 (h @ T) = drop 2 T"
    using assms(1) by simp_all
  with assms show ?thesis
    by (simp split: option.split)
qed

lemma scanstring_step:
  assumes "valid_str (c # cs)"
  shows "scanstring (escape_ascii c @ escaped_text cs @ 34 # rest) acc
         = scanstring (escaped_text cs @ 34 # rest) (acc @ [c])"
proof (cases c rule: escape_cases)
  case short
  then obtain e where "escape_ascii c = [92, e]" "e \<noteq> 117" "backslash e = Some c"
    using escape_short by blast
  then show ?thesis
    by simp
next
  case plain
  then have "escape_ascii c = [c]" "c \<noteq> 92" "c \<noteq> 34"
    by (simp_all add: escape_plain) (simp_all add: short_escape_def)
  with plain(2) show ?thesis
    by simp
next
  case bmp
  define T where "T = escaped_text cs @ 34 # rest"
  have e: "escape_ascii c @ T = 92 # 117 # hex4 c @ T"
    using bmp by (simp add: escape_bmp)
  have d: "decode_uXXXX (hex4 c @ T) = Some c"
    using bmp(3) by (simp add: decode_hex4)
  note step = scanstring_u [OF length_hex4 d, of acc]
  have "scanstring (escape_ascii c @ T) acc = scanstring T (acc @ [c])"
  proof (cases "is_high_surrogate c \<and> take 2 T = [92, 117]")
    case True
    then obtain uni2 where "decode_uXXXX (drop 2 T) = Some uni2"
      "\<not> (0xDC00 \<le> uni2 \<and> uni2 \<le> 0xDFFF)"
      using after_high_surrogate [OF assms, of rest] unfolding T_def by blast
    then show ?thesis
      unfolding e step by auto
  next
    case False
    then show ?thesis
      unfolding e step by (auto simp: is_high_surrogate_def)
  qed
  then show ?thesis
    by (simp add: T_def)
next
  case astral
  define T where "T = escaped_text cs @ 34 # rest"
  define n where "n = c - 0x10000"
  define s1 where "s1 = 0xD800 + n div 1024 mod 1024"
  define s2 where "s2 = 0xDC00 + n mod 1024"
  define T2 where "T2 = 92 # 117 # hex4 s2 @ T"
  have "c < 0x110000"
    using assms by (rule valid_str_head)
  then have n: "n < 1048576" and c: "c = 0x10000 + n"
    using astral(3) by (simp_all add: n_def)
  then have n1: "n div 1024 mod 1024 = n div 1024"
    by simp
  have e: "escape_ascii c @ T = 92 # 117 # hex4 s1 @ T2"
    using astral(3) by (simp add: escape_astral s1_def s2_def n_def T2_def)
  have d1: "decode_uXXXX (hex4 s1 @ T2) = Some s1"
    by (rule decode_hex4) (simp add: s1_def)
  have d2: "decode_uXXXX (drop 2 T2) = Some s2"
    unfolding T2_def by (simp add: decode_hex4 s2_def)
  have r: "0xD800 \<le> s1 \<and> s1 \<le> 0xDBFF" "0xDC00 \<le> s2 \<and> s2 \<le> 0xDFFF"
    by (simp_all add: s1_def s2_def)
  have v: "0x10000 + ((s1 - 0xD800) * 1024 + (s2 - 0xDC00)) = c"
    by (simp add: s1_def s2_def n1 c)
  have six: "drop 6 T2 = T" and two: "take 2 T2 = [92, 117]"
    by (simp_all add: T2_def length_hex4)
  have "scanstring (escape_ascii c @ T) acc = scanstring T (acc @ [c])"
    unfolding e scanstring_u [OF length_hex4 d1, of acc]
    using r v by (simp add: d2 six two)
  then show ?thesis
    by (simp add: T_def)
qed

lemma scanstring_escaped:
  "valid_str s \<Longrightarrow> scanstring (escaped_text s @ 34 # rest) acc = Some (acc @ s, rest)"
proof (induction s arbitrary: acc)
  case Nil
  then show ?case
    by (simp add: escaped_text_Nil)
next
  case (Cons c cs)
  from Cons.prems have "valid_str cs"
    by (rule valid_str_tail)
  then show ?case
    using scanstring_step [OF Cons.prems, of rest acc] Cons.IH [of "acc @ [c]"]
    by (simp add: escaped_text_Cons)
qed

lemma str_nat_0: "str_nat 0 = [48]"
  by (simp add: str_nat.simps)

lemma str_nat_form:
  "0 < n \<Longrightarrow> \<exists>d ds. str_nat n = d # ds \<and> 49 \<le> d \<and> d \<le> 57 \<and> (\<forall>c\<in>set ds. is_digit c)"
proof (induction n rule: str_nat.induct)
  case (1 n)
  show ?case
  proof (cases "n < 10")
    case True
    with "1.prems" show ?thesis
      by (subst str_nat.simps) simp
  next
    case False
    then have "0 < n div 10"
      by simp
    with "1.IH" False obtain d ds where
      "str_nat (n div 10) = d # ds" "49 \<le> d" "d \<le> 57" "\<forall>c\<in>set ds. is_digit c"
      by blast
    moreover have "is_digit (48 + n mod 10)"
      by (simp add: is_digit_def)
    ultimately show ?thesis
      using False by (subst str_nat.simps) simp
  qed
qed

lemma takeWhile_digits:
  "\<forall>c\<in>set ds. is_digit c \<Longrightarrow> delimited rest \<Longrightarrow>
   takeWhile is_digit (ds @ rest) = ds \<and> dropWhile is_digit (ds @ rest) = rest"
  by (induction ds) (cases rest; auto simp: is_digit_def)+

lemma match_integer_str_nat:
  assumes "delimited rest"
  shows "match_integer (str_nat n @ rest) = Some (str_nat n, rest)"
proof (cases "n = 0")
  case True
  then show ?thesis
    by (simp add: str_nat_0 match_integer_def)
next
  case False
  then obtain d ds where f: "str_nat n = d # ds" "49 \<le> d" "d \<le> 57" "\<forall>c\<in>set ds. is_digit c"
    using str_nat_form [of n] by auto
  then have d: "is_digit d" "d \<noteq> 48" "d \<noteq> 45"
    by (simp_all add: is_digit_def)
  from takeWhile_digits [OF f(4) assms] d show ?thesis
    by (simp add: match_integer_def f(1))
qed

lemma match_integer_neg:
  assumes "delimited rest"
  shows "match_integer (45 # str_nat n @ rest) = Some (45 # str_nat n, rest)"
proof (cases "n = 0")
  case True
  then show ?thesis
    by (simp add: str_nat_0 match_integer_def)
next
  case False
  then obtain d ds where f: "str_nat n = d # ds" "49 \<le> d" "d \<le> 57" "\<forall>c\<in>set ds. is_digit c"
    using str_nat_form [of n] by auto
  then have d: "is_digit d" "d \<noteq> 48" "d \<noteq> 45"
    by (simp_all add: is_digit_def)
  from takeWhile_digits [OF f(4) assms] d show ?thesis
    by (simp add: match_integer_def f(1))
qed

lemma str_nat_not_minus: "take 1 (str_nat n) \<noteq> [45]"
proof (cases "n = 0")
  case True
  then show ?thesis by (simp add: str_nat_0)
next
  case False
  then obtain d ds where "str_nat n = d # ds" "49 \<le> d"
    using str_nat_form [of n] by auto
  then show ?thesis by simp
qed

lemma match_integer_str_int:
  "delimited rest \<Longrightarrow> match_integer (str_int i @ rest) = Some (str_int i, rest)"
  by (simp add: str_int_def match_integer_str_nat match_integer_neg)

lemma int_of_str_str_int: "int_of_str (str_int i) = i"
  using str_nat_not_minus [of "nat i"]
  by (simp add: str_int_def int_of_str_def digits_value_str_nat)

lemma match_frac_delimited: "delimited rest \<Longrightarrow> match_frac rest = ([], rest)"
  by (cases rest) (auto simp: match_frac_def split: list.splits)

lemma match_exp_delimited: "delimited rest \<Longrightarrow> match_exp rest = ([], rest)"
  by (cases rest) (auto simp: match_exp_def)

lemma match_number_str_int:
  "delimited rest \<Longrightarrow> match_number w (str_int i @ rest) = Some (PInt i, rest)"
  by (simp add: match_number_def match_integer_str_int match_frac_delimited
      match_exp_delimited int_of_str_str_int)

lemma decodesI:
  assumes "iterencode w v = Some t" "starts_value t" "cost v \<le> length t"
    and "\<And>n rest. cost v \<le> n \<Longrightarrow> delimited rest \<Longrightarrow> scan_once w n (t @ rest) = Some (v, rest)"
  shows "decodes w v"
  unfolding decodes_def using assms by blast

lemma decodes_PNone: "decodes w PNone"
proof (rule decodesI)
  show "iterencode w PNone = Some (u ''null'')" by simp
  show "starts_value (u ''null'')" by (simp add: u_def is_ws_def)
  show "cost PNone \<le> length (u ''null'')" by (simp add: u_def)
  fix n rest assume "cost PNone \<le> n"
  then obtain m where "n = Suc m" by (cases n) simp_all
  then show "scan_once w n (u ''null'' @ rest) = Some (PNone, rest)"
    by (simp add: u_def)
qed

lemma decodes_PBool: "decodes w (PBool b)"
proof (rule decodesI)
  show "iterencode w (PBool b) = Some (if b then u ''true'' else u ''false'')" by simp
  show "starts_value (if b then u ''true'' else u ''false'')" by (simp add: u_def is_ws_def)
  show "cost (PBool b) \<le> length (if b then u ''true'' else u ''false'')" by (simp add: u_def)
  fix n rest assume "cost (PBool b) \<le> n"
  then obtain m where "n = Suc m" by (cases n) simp_all
  then show "scan_once w n ((if b then u ''true'' else u ''false'') @ rest) = Some (PBool b, rest)"
    by (simp add: u_def)
qed

lemma escaped_text_encode: "encode_basestring_ascii s = 34 # escaped_text s @ [34]"
  by (simp add: encode_basestring_ascii_def escaped_text_def)

lemma decodes_PStr: "valid_str s \<Longrightarrow> decodes w (PStr s)"
proof (rule decodesI)
  assume v: "valid_str s"
  show "iterencode w (PStr s) = Some (34 # escaped_text s @ [34])"
    by (simp add: escaped_text_encode)
  show "starts_value (34 # escaped_text s @ [34])" by (simp add: is_ws_def)
  show "cost (PStr s) \<le> length (34 # escaped_text s @ [34])" by simp
  fix n rest assume "cost (PStr s) \<le> n"
  then obtain m where "n = Suc m" by (cases n) simp_all
  then show "scan_once w n ((34 # escaped_text s @ [34]) @ rest) = Some (PStr s, rest)"
    using scanstring_escaped [OF v, of rest "[]"] by simp
qed

lemma str_nat_hd: "\<exists>c cs. str_nat n = c # cs \<and> 48 \<le> c \<and> c \<le> 57"
proof (cases "n = 0")
  case True
  then show ?thesis by (simp add: str_nat_0)
next
  case False
  then show ?thesis
    using str_nat_form [of n] by force
qed

lemma str_int_hd: "\<exists>c cs. str_int i = c # cs \<and> (c = 45 \<or> 48 \<le> c \<and> c \<le> 57)"
  using str_nat_hd [of "nat i"] by (auto simp: str_int_def)

lemma decodes_PInt: "decodes w (PInt i)"
proof -
  obtain c cs where f: "str_int i = c # cs" "c = 45 \<or> 48 \<le> c \<and> c \<le> 57"
    using str_int_hd by blast
  show ?thesis
  proof (rule decodesI)
    show "iterencode w (PInt i) = Some (c # cs)"
      by (simp add: f)
    show "starts_value (c # cs)"
      using f(2) by (auto simp: is_ws_def)
    show "cost (PInt i) \<le> length (c # cs)"
      by simp
    fix n rest assume "cost (PInt i) \<le> n" and d: "delimited rest"
    then obtain m where n: "n = Suc m" by (cases n) simp_all
    have "match_number w (c # cs @ rest) = Some (PInt i, rest)"
      using match_number_str_int [OF d, of w i] by (simp add: f)
    then show "scan_once w n ((c # cs) @ rest) = Some (PInt i, rest)"
      using f(2) unfolding n by (auto simp: u_def)
  qed
qed

lemma skip_ws_starts: "starts_value t \<Longrightarrow> skip_ws (t @ r) = t @ r"
  by (cases t) (simp_all add: skip_ws_def)

lemma skip_ws_space: "skip_ws (32 # s) = skip_ws s"
  by (simp add: skip_ws_def is_ws_def)

lemma skip_ws_delimiter: "c = 44 \<or> c = 93 \<or> c = 125 \<or> c = 58 \<or> c = 34 \<Longrightarrow> skip_ws (c # s) = c # s"
  by (auto simp: skip_ws_def is_ws_def)

lemma starts_value_append: "starts_value t \<Longrightarrow> starts_value (t @ r)"
  by (cases t) simp_all

lemma decodes_list_single:
  assumes "decodes w x"
  shows "decodes_list w [x]"
proof -
  from assms obtain t where t: "iterencode w x = Some t" "starts_value t" "cost x \<le> length t"
    and p: "\<And>n rest. cost x \<le> n \<Longrightarrow> delimited rest \<Longrightarrow> scan_once w n (t @ rest) = Some (x, rest)"
    unfolding decodes_def by blast
  have "parse_array w n (t @ 93 # rest) acc = Some (PList (acc @ [x]), rest)"
    if "cost_list [x] \<le> n" for n rest acc
  proof -
    from that obtain m where n: "n = Suc m" and m: "cost x \<le> m"
      by (cases n) simp_all
    have "scan_once w m (t @ 93 # rest) = Some (x, 93 # rest)"
      using p [OF m] by simp
    then show ?thesis
      unfolding n by (simp add: skip_ws_delimiter)
  qed
  with t show ?thesis
    unfolding decodes_list_def by simp
qed

lemma decodes_list_Cons:
  assumes "decodes w x" and "xs \<noteq> []" and "decodes_list w xs"
  shows "decodes_list w (x # xs)"
proof -
  from assms(1) obtain t where t: "iterencode w x = Some t" "starts_value t" "cost x \<le> length t"
    and p: "\<And>n rest. cost x \<le> n \<Longrightarrow> delimited rest \<Longrightarrow> scan_once w n (t @ rest) = Some (x, rest)"
    unfolding decodes_def by blast
  from assms(3) obtain ts where ts: "iterencode_list w xs = Some ts" "starts_value ts"
      "cost_list xs \<le> Suc (length ts)"
    and q: "\<And>n rest acc. cost_list xs \<le> n \<Longrightarrow>
              parse_array w n (ts @ 93 # rest) acc = Some (PList (acc @ xs), rest)"
    unfolding decodes_list_def by blast
  have e: "iterencode_list w (x # xs) = Some (t @ 44 # 32 # ts)"
    using t(1) ts(1) assms(2) by (simp add: u_def)
  have "parse_array w n ((t @ 44 # 32 # ts) @ 93 # rest) acc = Some (PList (acc @ x # xs), rest)"
    if "cost_list (x # xs) \<le> n" for n rest acc
  proof -
    from that obtain m where n: "n = Suc m" and m: "cost x \<le> m" "cost_list xs \<le> m"
      by (cases n) simp_all
    have "scan_once w m (t @ 44 # 32 # ts @ 93 # rest) = Some (x, 44 # 32 # ts @ 93 # rest)"
      using p [OF m(1)] by simp
    moreover have "skip_ws (32 # ts @ 93 # rest) = ts @ 93 # rest"
      by (simp add: skip_ws_space skip_ws_starts ts(2))
    ultimately show ?thesis
      unfolding n using q [OF m(2), of rest "acc @ [x]"]
      by (simp add: skip_ws_delimiter)
  qed
  moreover have "starts_value (t @ 44 # 32 # ts)"
    using t(2) by (rule starts_value_append)
  moreover have "cost_list (x # xs) \<le> Suc (length (t @ 44 # 32 # ts))"
    using t(3) ts(3) by simp
  ultimately show ?thesis
    unfolding decodes_list_def using e by blast
qed

lemma decodes_PList_empty: "decodes w (PList [])"
proof (rule decodesI)
  show "iterencode w (PList []) = Some [91, 93]" by (simp add: u_def)
  show "starts_value [91, 93]" by (simp add: is_ws_def)
  show "cost (PList []) \<le> length [91, 93 :: nat]" by simp
  fix n rest assume "cost (PList []) \<le> n"
  then obtain m where "n = Suc m" by (cases n) simp_all
  then show "scan_once w n ([91, 93] @ rest) = Some (PList [], rest)"
    by (simp add: skip_ws_delimiter)
qed

lemma decodes_PList:
  assumes "xs \<noteq> []" and "decodes_list w xs"
  shows "decodes w (PList xs)"
proof -
  from assms(2) obtain ts where ts: "iterencode_list w xs = Some ts" "starts_value ts"
      "cost_list xs \<le> Suc (length ts)"
    and q: "\<And>n rest acc. cost_list xs \<le> n \<Longrightarrow>
              parse_array w n (ts @ 93 # rest) acc = Some (PList (acc @ xs), rest)"
    unfolding decodes_list_def by blast
  from ts(2) obtain d ds where d: "ts = d # ds" "\<not> is_ws d" "d \<noteq> 93"
    by (cases ts) simp_all
  show ?thesis
  proof (rule decodesI)
    show "iterencode w (PList xs) = Some (91 # ts @ [93])"
      using assms(1) ts(1) by simp
    show "starts_value (91 # ts @ [93])" by (simp add: is_ws_def)
    show "cost (PList xs) \<le> length (91 # ts @ [93])"
      using ts(3) by simp
    fix n rest assume "cost (PList xs) \<le> n"
    then obtain m where n: "n = Suc m" and m: "cost_list xs \<le> m"
      by (cases n) simp_all
    have "skip_ws (ts @ 93 # rest) = d # ds @ 93 # rest"
      using skip_ws_starts [OF ts(2)] d(1) by simp
    then show "scan_once w n ((91 # ts @ [93]) @ rest) = Some (PList xs, rest)"
      unfolding n using q [OF m, of rest "[]"] d by simp
  qed
qed

lemma update_fresh: "k \<notin> fst ` set d \<Longrightarrow> AList.update k v d = d @ [(k, v)]"
  by (induction d) auto

lemma foldl_update_distinct:
  "distinct (map fst (d @ ps)) \<Longrightarrow> foldl (\<lambda>d (k, v). AList.update k v d) d ps = d @ ps"
proof (induction ps arbitrary: d)
  case Nil
  then show ?case by simp
next
  case (Cons p ps)
  obtain k v where p: "p = (k, v)" by (cases p)
  from Cons.prems have "k \<notin> fst ` set d"
    by (auto simp: p)
  then have "AList.update k v d = d @ [(k, v)]"
    by (rule update_fresh)
  moreover from Cons.prems have "distinct (map fst ((d @ [(k, v)]) @ ps))"
    by (simp add: p)
  ultimately show ?case
    using Cons.IH [of "d @ [(k, v)]"] by (simp add: p)
qed

lemma py_dict_distinct: "distinct (map fst kvs) \<Longrightarrow> py_dict kvs = kvs"
  using foldl_update_distinct [of "[]" kvs] by (simp add: py_dict_def)

lemma decodes_dict_single:
  assumes "valid_str k" and "decodes w v"
  shows "decodes_dict w [(k, v)]"
proof -
  from assms(2) obtain t where t: "iterencode w v = Some t" "starts_value t" "cost v \<le> length t"
    and p: "\<And>n rest. cost v \<le> n \<Longrightarrow> delimited rest \<Longrightarrow> scan_once w n (t @ rest) = Some (v, rest)"
    unfolding decodes_def by blast
  define body where "body = escaped_text k @ 34 # 58 # 32 # t"
  have e: "iterencode_dict w [(k, v)] = Some (34 # body)"
    using t(1) by (simp add: escaped_text_encode u_def body_def)
  have "parse_object w n (body @ 125 # rest) acc = Some (PDict (py_dict (acc @ [(k, v)])), rest)"
    if "cost_dict [(k, v)] \<le> n" for n rest acc
  proof -
    from that obtain m where n: "n = Suc m" and m: "cost v \<le> m"
      by (cases n) simp_all
    have 1: "scanstring (body @ 125 # rest) [] = Some (k, 58 # 32 # t @ 125 # rest)"
      using scanstring_escaped [OF assms(1), of "58 # 32 # t @ 125 # rest" "[]"]
      by (simp add: body_def)
    have 2: "skip_ws (32 # t @ 125 # rest) = t @ 125 # rest"
      by (simp add: skip_ws_space skip_ws_starts t(2))
    have 3: "scan_once w m (t @ 125 # rest) = Some (v, 125 # rest)"
      using p [OF m] by simp
    show ?thesis
      unfolding n by (simp add: 1 2 3 skip_ws_delimiter)
  qed
  moreover have "cost_dict [(k, v)] \<le> length body"
    using t(3) by (simp add: body_def)
  ultimately show ?thesis
    unfolding decodes_dict_def using e by blast
qed

lemma decodes_dict_Cons:
  assumes "valid_str k" and "decodes w v" and "kvs \<noteq> []" and "decodes_dict w kvs"
  shows "decodes_dict w ((k, v) # kvs)"
proof -
  from assms(2) obtain t where t: "iterencode w v = Some t" "starts_value t" "cost v \<le> length t"
    and p: "\<And>n rest. cost v \<le> n \<Longrightarrow> delimited rest \<Longrightarrow> scan_once w n (t @ rest) = Some (v, rest)"
    unfolding decodes_def by blast
  from assms(4) obtain ts where ts: "iterencode_dict w kvs = Some (34 # ts)"
      "cost_dict kvs \<le> length ts"
    and q: "\<And>n rest acc. cost_dict kvs \<le> n \<Longrightarrow>
              parse_object w n (ts @ 125 # rest) acc = Some (PDict (py_dict (acc @ kvs)), rest)"
    unfolding decodes_dict_def by blast
  define body where "body = escaped_text k @ 34 # 58 # 32 # t @ 44 # 32 # 34 # ts"
  have e: "iterencode_dict w ((k, v) # kvs) = Some (34 # body)"
    using t(1) ts(1) assms(3) by (simp add: escaped_text_encode u_def body_def)
  have "parse_object w n (body @ 125 # rest) acc
        = Some (PDict (py_dict (acc @ (k, v) # kvs)), rest)"
    if "cost_dict ((k, v) # kvs) \<le> n" for n rest acc
  proof -
    from that obtain m where n: "n = Suc m" and m: "cost v \<le> m" "cost_dict kvs \<le> m"
      by (cases n) simp_all
    define tail where "tail = 44 # 32 # 34 # ts @ 125 # rest"
    have 1: "scanstring (body @ 125 # rest) [] = Some (k, 58 # 32 # t @ tail)"
      using scanstring_escaped [OF assms(1), of "58 # 32 # t @ tail" "[]"]
      by (simp add: body_def tail_def)
    have 2: "skip_ws (32 # t @ tail) = t @ tail"
      by (simp add: skip_ws_space skip_ws_starts t(2))
    have 3: "scan_once w m (t @ tail) = Some (v, tail)"
      using p [OF m(1), of tail] by (simp add: tail_def)
    have 4: "skip_ws tail = 44 # 32 # 34 # ts @ 125 # rest"
      by (simp add: tail_def skip_ws_delimiter)
    have 5: "skip_ws (32 # 34 # ts @ 125 # rest) = 34 # ts @ 125 # rest"
      by (simp add: skip_ws_space skip_ws_delimiter)
    show ?thesis
      unfolding n using q [OF m(2), of rest "acc @ [(k, v)]"]
      by (simp add: 1 2 3 4 5 skip_ws_delimiter)
  qed
  moreover have "cost_dict ((k, v) # kvs) \<le> length body"
    using t(3) ts(2) by (simp add: body_def)
  ultimately show ?thesis
    unfolding decodes_dict_def using e by blast
qed

lemma decodes_PDict_empty: "decodes w (PDict [])"
proof (rule decodesI)
  show "iterencode w (PDict []) = Some [123, 125]" by (simp add: u_def)
  show "starts_value [123, 125]" by (simp add: is_ws_def)
  show "cost (PDict []) \<le> length [123, 125 :: nat]" by simp
  fix n rest assume "cost (PDict []) \<le> n"
  then obtain m where "n = Suc m" by (cases n) simp_all
  then show "scan_once w n ([123, 125] @ rest) = Some (PDict [], rest)"
    by (simp add: skip_ws_delimiter)
qed

lemma decodes_PDict:
  assumes "kvs \<noteq> []" and "distinct (map fst kvs)" and "decodes_dict w kvs"
  shows "decodes w (PDict kvs)"
proof -
  from assms(3) obtain ts where ts: "iterencode_dict w kvs = Some (34 # ts)"
      "cost_dict kvs \<le> length ts"
    and q: "\<And>n rest acc. cost_dict kvs \<le> n \<Longrightarrow>
              parse_object w n (ts @ 125 # rest) acc = Some (PDict (py_dict (acc @ kvs)), rest)"
    unfolding decodes_dict_def by blast
  show ?thesis
  proof (rule decodesI)
    show "iterencode w (PDict kvs) = Some (123 # 34 # ts @ [125])"
      using assms(1) ts(1) by simp
    show "starts_value (123 # 34 # ts @ [125])" by (simp add: is_ws_def)
    show "cost (PDict kvs) \<le> length (123 # 34 # ts @ [125])"
      using ts(2) by simp
    fix n rest assume "cost (PDict kvs) \<le> n"
    then obtain m where n: "n = Suc m" and m: "cost_dict kvs \<le> m"
      by (cases n) simp_all
    show "scan_once w n ((123 # 34 # ts @ [125]) @ rest) = Some (PDict kvs, rest)"
      unfolding n using q [OF m, of rest "[]"]
      by (simp add: skip_ws_delimiter py_dict_distinct [OF assms(2)])
  qed
qed

lemma exact_values_decode:
  shows "json_exact v \<Longrightarrow> decodes w v"
    and "xs \<noteq> [] \<Longrightarrow> json_exact_list xs \<Longrightarrow> decodes_list w xs"
    and "kvs \<noteq> [] \<Longrightarrow> json_exact_dict kvs \<Longrightarrow> decodes_dict w kvs"
proof (induction v and xs and kvs rule: cost_cost_list_cost_dict.induct)
  case (1 xs)
  then show ?case
    by (cases "xs = []") (simp_all add: decodes_PList_empty decodes_PList)
next
  case (2 kvs)
  then show ?case
    by (cases "kvs = []") (simp_all add: decodes_PDict_empty decodes_PDict)
next
  case (5 x xs)
  then show ?case
    by (cases "xs = []") (simp_all add: decodes_list_single decodes_list_Cons)
next
  case (7 k v kvs)
  then show ?case
    by (cases "kvs = []") (simp_all add: decodes_dict_single decodes_dict_Cons)
qed (simp_all add: decodes_PNone decodes_PBool decodes_PInt decodes_PStr)

text \<open>The text of an exact value decodes to the value.\<close>

lemma json_loads_json_dumps:
  assumes "json_exact v"
  shows "\<exists>body. json_dumps w v = Some body \<and> json_loads w body = Some v"
proof -
  from exact_values_decode(1) [OF assms, of w]
  obtain t where t: "iterencode w v = Some t" "starts_value t" "cost v \<le> length t"
    and p: "\<And>n rest. cost v \<le> n \<Longrightarrow> delimited rest \<Longrightarrow> scan_once w n (t @ rest) = Some (v, rest)"
    unfolding decodes_def by blast
  from t(2) have bom: "take 1 t \<noteq> [0xFEFF]"
    by (cases t) simp_all
  have "scan_once w (Suc (length t)) (t @ []) = Some (v, [])"
    using t(3) by (intro p) simp_all
  moreover have "skip_ws t = t"
    using skip_ws_starts [OF t(2), of "[]"] by simp
  ultimately have "json_loads w t = Some v"
    using bom by (simp add: json_loads_def skip_ws_def)
  with t(1) show ?thesis
    by (simp add: json_dumps_def)
qed

lemma iterencode_world_independent:
  shows "json_exact v \<Longrightarrow> iterencode w v = iterencode w' v"
    and "json_exact_list xs \<Longrightarrow> iterencode_list w xs = iterencode_list w' xs"
    and "json_exact_dict kvs \<Longrightarrow> iterencode_dict w kvs = iterencode_dict w' kvs"
  by (induction v and xs and kvs rule: cost_cost_list_cost_dict.induct)
    (simp_all split: option.split)

lemma valid_str_latin: "latin s \<Longrightarrow> valid_str s"
  by (induction s rule: valid_str.induct) (simp_all add: latin_def is_high_surrogate_def)

lemma latin_u: "latin (u s)"
proof -
  have "(of_char c :: nat) < 256" for c
    by (cases c) simp
  then show ?thesis
    by (simp add: latin_def u_def list_all_iff)
qed

lemma latin_append: "latin (a @ b) \<longleftrightarrow> latin a \<and> latin b"
  by (simp add: latin_def)

lemma latin_replicate: "c < 256 \<Longrightarrow> latin (replicate n c)"
  by (simp add: latin_def list_all_iff)

lemma latin_str_nat: "latin (str_nat n)"
proof (induction n rule: str_nat.induct)
  case (1 n)
  show ?case
  proof (cases "n < 10")
    case True
    then show ?thesis
      by (subst str_nat.simps) (simp add: latin_def)
  next
    case False
    with "1" have "latin (str_nat (n div 10))"
      by simp
    moreover have "48 + n mod 10 < 256"
      by simp
    ultimately show ?thesis
      using False by (subst str_nat.simps) (simp add: latin_def)
  qed
qed

lemma json_exact_list_map: "(\<And>x. json_exact (f x)) \<Longrightarrow> json_exact_list (map f xs)"
  by (induction xs) simp_all

lemma json_exact_large_tool: "json_exact (large_tool i)"
  by (simp add: large_tool_def u_inj valid_str_latin latin_u latin_append latin_replicate
      latin_str_nat str_int_of_nat u_x str_times_single)

lemma json_exact_payload_large_stdin: "json_exact payload_large_stdin"
  by (simp add: payload_large_stdin_def u_inj valid_str_latin latin_u latin_append
      latin_replicate latin_str_nat str_int_of_nat take_large_content_large_stdin)

lemma json_exact_payload_stdin: "json_exact payload_stdin"
  by (simp add: payload_stdin_def u_inj valid_str_latin latin_u latin_append
      latin_replicate take_large_content_stdin large_tools_map json_exact_list_map
      json_exact_large_tool)

lemma ascii_append: "ascii (a @ b) \<longleftrightarrow> ascii a \<and> ascii b"
  by (simp add: ascii_def)

lemma ascii_Cons: "ascii (c # cs) \<longleftrightarrow> c < 128 \<and> ascii cs"
  by (simp add: ascii_def)

lemma ascii_Nil: "ascii []"
  by (simp add: ascii_def)

lemma ascii_hex4: "ascii (hex4 n)"
proof -
  have small: "hex_digit e < 128" if "e < 16" for e
    using that by (simp add: hex_digit_def)
  have "hex_digit (d mod 16) < 128" for d
    by (rule small) simp
  from this [of "n div 4096"] this [of "n div 256"] this [of "n div 16"] this [of n]
  show ?thesis
    by (simp add: hex4_def ascii_def)
qed

lemma ascii_escape_ascii: "ascii (escape_ascii c)"
proof (cases c rule: escape_cases)
  case short
  then show ?thesis
    unfolding short_escape_def escape_ascii_def by (auto simp: ascii_def)
next
  case plain
  then show ?thesis
    by (simp add: escape_plain ascii_def)
next
  case bmp
  then show ?thesis
    by (simp add: escape_bmp ascii_Cons ascii_hex4)
next
  case astral
  then show ?thesis
    by (simp add: escape_astral ascii_Cons ascii_append ascii_hex4)
qed

lemma ascii_escaped_text: "ascii (escaped_text s)"
  by (induction s) (simp_all add: escaped_text_Nil escaped_text_Cons ascii_append ascii_Nil
      ascii_escape_ascii)

lemma ascii_encode_basestring_ascii: "ascii (encode_basestring_ascii s)"
  by (simp add: escaped_text_encode ascii_Cons ascii_append ascii_escaped_text ascii_Nil)

lemma ascii_str_nat: "ascii (str_nat n)"
proof (induction n rule: str_nat.induct)
  case (1 n)
  show ?case
  proof (cases "n < 10")
    case True
    then show ?thesis
      by (subst str_nat.simps) (simp add: ascii_def)
  next
    case False
    with "1" have "ascii (str_nat (n div 10))"
      by simp
    moreover have "48 + n mod 10 < 128"
      by simp
    ultimately show ?thesis
      using False by (subst str_nat.simps) (simp add: ascii_def)
  qed
qed

lemma ascii_str_int: "ascii (str_int i)"
  by (simp add: str_int_def ascii_Cons ascii_str_nat)

lemma ascii_iterencode:
  shows "json_exact v \<Longrightarrow> iterencode w v = Some t \<Longrightarrow> ascii t"
    and "json_exact_list xs \<Longrightarrow> iterencode_list w xs = Some t \<Longrightarrow> ascii t"
    and "json_exact_dict kvs \<Longrightarrow> iterencode_dict w kvs = Some t \<Longrightarrow> ascii t"
proof (induction v and xs and kvs arbitrary: t and t and t rule: cost_cost_list_cost_dict.induct)
  case (5 x xs)
  then show ?case
    by (auto simp: ascii_append ascii_Cons u_def split: option.splits if_splits)
next
  case (7 k v kvs)
  then show ?case
    by (auto simp: ascii_append ascii_Cons ascii_encode_basestring_ascii u_def ascii_Nil
        split: option.splits if_splits)
qed (auto simp: ascii_append ascii_Cons ascii_Nil ascii_str_int ascii_encode_basestring_ascii
    u_def split: option.splits if_splits)

text \<open>
  Two computed examples. The encoder on a dictionary with a list, a negative number and a
  string with an accented letter, a quote, a line feed and a character beyond the basic
  plane; the decoder on a text with white space, a key given twice and an escape.
\<close>

lemma json_dumps_example:
  \<open>json_dumps w (PDict [(u ''a'', PList [PInt 1, PInt (- 20), PNone, PBool True]),
                        (u ''s'', PStr [233, 34, 10, 0x1F600])])
   = Some (u ''{"a": [1, -20, null, true], "s": "'' @ [92] @ u ''u00e9'' @ [92, 34, 92]
           @ u ''n'' @ [92] @ u ''ud83d'' @ [92] @ u ''ude00"}'')\<close>
  by (simp add: json_dumps_def encode_basestring_ascii_def escape_ascii_def hex4_def
      hex_digit_def str_int_def str_nat.simps u_def)

lemma fuel_numeral:
  "scan_once w (numeral k) s = scan_once w (Suc (pred_numeral k)) s"
  "parse_array w (numeral k) s vs = parse_array w (Suc (pred_numeral k)) s vs"
  "parse_object w (numeral k) s ps = parse_object w (Suc (pred_numeral k)) s ps"
  by (simp_all only: numeral_eq_Suc)

lemma json_loads_example:
  \<open>json_loads w (u '' {"k" : [1 , -2], "k": "x'' @ [92] @ u ''u00E9"} '')
   = Some (PDict [(u ''k'', PStr [120, 233])])\<close>
  by (simp add: json_loads_def skip_ws_def is_ws_def u_def match_number_def match_integer_def
      match_frac_def match_exp_def is_digit_def int_of_str_def digits_value_def
      decode_uXXXX_def hex_value_def backslash_def py_dict_def fuel_numeral)

text \<open>
  C7. In either script and any world, the one request handed to \<open>requests.post\<close> has a
  body: the JSON text of the payload built before the call. That text consists of ASCII
  characters only, so its UTF-8 bytes are its characters, and decoding it with
  \<open>json.loads\<close>, in whatever interpreter, yields the payload itself: the same keys in
  the same order with the same values, field for field.
\<close>

theorem request_body_round_trip:
  "(\<exists>body. map (wire_body w) (posted (main_large_stdin w)) = [Some body]
       \<and> ascii body
       \<and> json_loads w' body = Some payload_large_stdin)
   \<and> (\<exists>body. map (wire_body w) (posted (main_stdin w)) = [Some body]
       \<and> ascii body
       \<and> json_loads w' body = Some payload_stdin)"
proof -
  have "\<exists>body. json_dumps w v = Some body \<and> ascii body \<and> json_loads w' body = Some v"
    if "json_exact v" for v
  proof -
    from json_loads_json_dumps [OF that, of w']
    obtain body where b: "json_dumps w' v = Some body" "json_loads w' body = Some v"
      by blast
    then have "json_dumps w v = Some body"
      using iterencode_world_independent(1) [OF that, of w w'] by (simp add: json_dumps_def)
    moreover from this have "ascii body"
      using ascii_iterencode(1) [OF that] by (simp add: json_dumps_def)
    ultimately show ?thesis
      using b(2) by blast
  qed
  from this [OF json_exact_payload_large_stdin] this [OF json_exact_payload_stdin]
  show ?thesis
    by (simp add: posted_large_stdin posted_stdin wire_body_def
        request_large_stdin_def request_stdin_def)
qed

subsection \<open>Extraction and the shape of the response\<close>

lemma getitem_int_0_PList: "getitem_int (PList (x # xs)) 0 = Inr x"
  by (simp add: norm_index_def)

lemma getitem_int_0_Nil: "getitem_int (PList []) 0 = Inl IndexError"
  by (simp add: norm_index_def)

lemma extraction_iff_content_at:
  "choices0_message_content result = Inr c \<longleftrightarrow> content_at result = Some c"
proof (cases result)
  case (PDict kvs)
  show ?thesis
  proof (cases "map_of kvs (u ''choices'')")
    case None
    with PDict show ?thesis
      by (simp add: choices0_message_content_def and_then_def norm_index_def)
  next
    case (Some choices)
    note ch = Some
    show ?thesis
    proof (cases choices)
      case (PList xs)
      show ?thesis
      proof (cases xs)
        case Nil
        with PDict ch PList show ?thesis
          by (simp add: choices0_message_content_def and_then_def norm_index_def)
      next
        case (Cons choice others)
        have first: "getitem_int (PList (choice # others)) 0 = Inr choice"
          by (rule getitem_int_0_PList)
        show ?thesis
        proof (cases choice)
          case (PDict ckvs)
          note cd = PDict
          show ?thesis
          proof (cases "map_of ckvs (u ''message'')")
            case None
            with \<open>result = PDict kvs\<close> ch PList Cons cd first show ?thesis
              by (simp add: choices0_message_content_def and_then_def norm_index_def)
          next
            case (Some message)
            with \<open>result = PDict kvs\<close> ch PList Cons cd first show ?thesis
              by (cases message)
                (auto simp: choices0_message_content_def and_then_def norm_index_def split: option.splits)
          qed
        qed (use \<open>result = PDict kvs\<close> ch PList Cons first in
              \<open>simp_all add: choices0_message_content_def and_then_def norm_index_def\<close>)
      qed
    next
      case (PStr s)
      with PDict ch show ?thesis
        by (simp add: choices0_message_content_def and_then_def norm_index_def split: option.splits)
    qed (use PDict ch in \<open>simp_all add: choices0_message_content_def and_then_def norm_index_def\<close>)
  qed
qed (simp_all add: choices0_message_content_def and_then_def)

lemma lacking_keys_raises:
  "content_at result = None \<Longrightarrow> \<exists>e. choices0_message_content result = Inl e"
proof -
  assume "content_at result = None"
  then have "\<And>c. choices0_message_content result \<noteq> Inr c"
    by (simp add: extraction_iff_content_at)
  then show ?thesis
    by (cases "choices0_message_content result") auto
qed


subsection \<open>Which lines can be printed\<close>

lemma can_print_u:
  "can_print w (u '' Error: '')"
  "can_print w (u '' Success! Large prompt handled correctly'')"
  "can_print w (u '' Success! Stdin implementation working'')"
  "can_print w (u ''Response: '')"
  "can_print w (u ''...'')"
  "can_print w (u ''Response length: '')"
  by (rule can_print_ascii, simp add: u_def)+

lemma can_print_str_int: "can_print w (str_int i)"
  using ascii_str_int [of i] by (simp add: ascii_def can_print_ascii)

lemma can_print_failure_line:
  "can_print w (failure_line w e) \<longleftrightarrow> can_print w cross_mark \<and> can_print w (str_exn w e)"
  by (simp add: failure_line_def can_print_append can_print_u)

lemma can_print_lines:
  "can_print w (check_mark @ u '' Success! Large prompt handled correctly'')
     \<longleftrightarrow> can_print w check_mark"
  "can_print w (check_mark @ u '' Success! Stdin implementation working'')
     \<longleftrightarrow> can_print w check_mark"
  "can_print w (cross_mark @ u '' Error: '' @ str_int i) \<longleftrightarrow> can_print w cross_mark"
  "can_print w (u ''Response: '' @ s @ u ''...'') \<longleftrightarrow> can_print w s"
  "can_print w (u ''Response length: '' @ str_int i)"
  by (simp_all add: can_print_append can_print_u can_print_str_int)

subsection \<open>A run, from the outcome of its \<open>try\<close> block\<close>

lemma finish_try_except:
  "finish (try_except body (\<lambda>e. py_print w (failure_line w e)) c) =
     (case fst (body c) of
        Inr v \<Rightarrow>
          \<lparr>stdout = printed (snd (body c)), posted = requested (snd (body c)),
           uncaught = None\<rparr>
      | Inl e \<Rightarrow>
          if can_print w (failure_line w e) then
            \<lparr>stdout = printed (snd (body c)) @ [failure_line w e],
             posted = requested (snd (body c)), uncaught = None\<rparr>
          else
            \<lparr>stdout = printed (snd (body c)), posted = requested (snd (body c)),
             uncaught = Some (UnicodeEncodeError (failure_line w e)
                               (first_unencodable w (failure_line w e)))\<rparr>)"
  by (simp add: finish_def try_except_def py_print_def split: sum.splits prod.splits)

lemma main_large_stdin_try:
  "main_large_stdin w =
     finish (try_except (try_block_large_stdin w) (\<lambda>e. py_print w (failure_line w e))
               \<lparr>printed = banner_large_stdin, requested = []\<rparr>)"
  by (simp add: main_large_stdin_def test_stdin_implementation_large_stdin_def then_do_def
      py_print_ok can_print_banner start_def banner_large_stdin_def failure_line_def)

lemma main_stdin_try:
  "main_stdin w =
     finish (try_except (try_block_stdin w) (\<lambda>e. py_print w (failure_line w e))
               \<lparr>printed = banner_stdin, requested = []\<rparr>)"
  by (simp add: main_stdin_def test_stdin_implementation_stdin_def then_do_def
      py_print_ok can_print_banner start_def banner_stdin_def failure_line_def)

text \<open>The \<open>try\<close> block of test-large-stdin.py, path by path.\<close>

lemma try_large_stdin_post_raises:
  "post w request_large_stdin = Inl e \<Longrightarrow>
   fst (try_block_large_stdin w c) = Inl e
   \<and> printed (snd (try_block_large_stdin w c)) = printed c"
  by (simp add: try_block_large_stdin_def then_do_def requests_post_def)

lemma try_large_stdin_other_status:
  "post w request_large_stdin = Inr r \<Longrightarrow> status_code r \<noteq> 200 \<Longrightarrow>
   try_block_large_stdin w c =
     then_do (py_print w (cross_mark @ u '' Error: '' @ str_int (status_code r)))
       (\<lambda>_. py_print w (body_text r)) (c\<lparr>requested := requested c @ [request_large_stdin]\<rparr>)"
  by (simp add: try_block_large_stdin_def then_do_def requests_post_def)

lemma try_large_stdin_200:
  "post w request_large_stdin = Inr r \<Longrightarrow> status_code r = 200 \<Longrightarrow>
   try_block_large_stdin w c =
     then_do (py_print w (check_mark @ u '' Success! Large prompt handled correctly'')) (\<lambda>_.
     then_do (evaluate (json r)) (\<lambda>result.
     then_do (evaluate (and_then (choices0_message_content result) (\<lambda>c. slice_to c 200))) (\<lambda>v.
     py_print w (u ''Response: '' @ format_value w v @ u ''...''))))
     (c\<lparr>requested := requested c @ [request_large_stdin]\<rparr>)"
  by (simp add: try_block_large_stdin_def then_do_def requests_post_def)

lemma try_stdin_post_raises:
  "post w request_stdin = Inl e \<Longrightarrow>
   fst (try_block_stdin w c) = Inl e \<and> printed (snd (try_block_stdin w c)) = printed c"
  by (simp add: try_block_stdin_def then_do_def requests_post_def)

lemma try_stdin_other_status:
  "post w request_stdin = Inr r \<Longrightarrow> status_code r \<noteq> 200 \<Longrightarrow>
   try_block_stdin w c =
     then_do (py_print w (cross_mark @ u '' Error: '' @ str_int (status_code r)))
       (\<lambda>_. py_print w (body_text r)) (c\<lparr>requested := requested c @ [request_stdin]\<rparr>)"
  by (simp add: try_block_stdin_def then_do_def requests_post_def)

lemma try_stdin_200:
  "post w request_stdin = Inr r \<Longrightarrow> status_code r = 200 \<Longrightarrow>
   try_block_stdin w c =
     then_do (py_print w (check_mark @ u '' Success! Stdin implementation working'')) (\<lambda>_.
     then_do (evaluate (json r)) (\<lambda>result.
     then_do (evaluate (and_then (choices0_message_content result) py_len)) (\<lambda>n.
     py_print w (u ''Response length: '' @ str_int (int n)))))
     (c\<lparr>requested := requested c @ [request_stdin]\<rparr>)"
  by (simp add: try_block_stdin_def then_do_def requests_post_def)

lemma exit_code_zero: "uncaught r = None \<Longrightarrow> exit_code r = 0"
  by (simp add: exit_code_def)

lemma exit_code_one: "uncaught r = Some e \<Longrightarrow> exit_code r = 1"
  by (simp add: exit_code_def)


text \<open>Every run of test-large-stdin.py, by what the endpoint answers.\<close>

lemma run_large_stdin_post_raises:
  "post w request_large_stdin = Inl e \<Longrightarrow>
   main_large_stdin w = caught w banner_large_stdin request_large_stdin e"
  using try_large_stdin_post_raises [of w e "\<lparr>printed = banner_large_stdin, requested = []\<rparr>"]
    requested_try_block_large_stdin [of w "\<lparr>printed = banner_large_stdin, requested = []\<rparr>"]
  by (simp add: main_large_stdin_try finish_try_except caught_def)

lemma run_large_stdin_other_status:
  "post w request_large_stdin = Inr r \<Longrightarrow> status_code r \<noteq> 200 \<Longrightarrow>
   main_large_stdin w =
     (if can_print w cross_mark then
        if can_print w (body_text r) then
          \<lparr>stdout = banner_large_stdin
                    @ [cross_mark @ u '' Error: '' @ str_int (status_code r), body_text r],
           posted = [request_large_stdin], uncaught = None\<rparr>
        else
          caught w (banner_large_stdin @ [cross_mark @ u '' Error: '' @ str_int (status_code r)])
            request_large_stdin
            (UnicodeEncodeError (body_text r) (first_unencodable w (body_text r)))
      else
        caught w banner_large_stdin request_large_stdin
          (UnicodeEncodeError (cross_mark @ u '' Error: '' @ str_int (status_code r))
             (first_unencodable w (cross_mark @ u '' Error: '' @ str_int (status_code r)))))"
  by (simp add: main_large_stdin_try finish_try_except try_large_stdin_other_status
      then_do_def py_print_def can_print_lines caught_def)

lemma run_large_stdin_200:
  "post w request_large_stdin = Inr r \<Longrightarrow> status_code r = 200 \<Longrightarrow>
   main_large_stdin w =
     (if can_print w check_mark then
        case json r of
          Inl e \<Rightarrow>
            caught w (banner_large_stdin
                      @ [check_mark @ u '' Success! Large prompt handled correctly''])
              request_large_stdin e
        | Inr result \<Rightarrow>
            (case and_then (choices0_message_content result) (\<lambda>c. slice_to c 200) of
               Inl e \<Rightarrow>
                 caught w (banner_large_stdin
                           @ [check_mark @ u '' Success! Large prompt handled correctly''])
                   request_large_stdin e
             | Inr v \<Rightarrow>
                 if can_print w (format_value w v) then
                   \<lparr>stdout = banner_large_stdin
                             @ [check_mark @ u '' Success! Large prompt handled correctly'',
                                u ''Response: '' @ format_value w v @ u ''...''],
                    posted = [request_large_stdin], uncaught = None\<rparr>
                 else
                   caught w (banner_large_stdin
                             @ [check_mark @ u '' Success! Large prompt handled correctly''])
                     request_large_stdin
                     (UnicodeEncodeError (u ''Response: '' @ format_value w v @ u ''...'')
                        (first_unencodable w (u ''Response: '' @ format_value w v @ u ''...''))))
      else
        caught w banner_large_stdin request_large_stdin
          (UnicodeEncodeError (check_mark @ u '' Success! Large prompt handled correctly'')
             (first_unencodable w
                (check_mark @ u '' Success! Large prompt handled correctly''))))"
  by (simp add: main_large_stdin_try finish_try_except try_large_stdin_200
      then_do_def py_print_def evaluate_def can_print_lines caught_def
      split: sum.splits)

text \<open>Every run of test-stdin.py, by what the endpoint answers.\<close>

lemma run_stdin_post_raises:
  "post w request_stdin = Inl e \<Longrightarrow>
   main_stdin w = caught w banner_stdin request_stdin e"
  using try_stdin_post_raises [of w e "\<lparr>printed = banner_stdin, requested = []\<rparr>"]
    requested_try_block_stdin [of w "\<lparr>printed = banner_stdin, requested = []\<rparr>"]
  by (simp add: main_stdin_try finish_try_except caught_def)

lemma run_stdin_other_status:
  "post w request_stdin = Inr r \<Longrightarrow> status_code r \<noteq> 200 \<Longrightarrow>
   main_stdin w =
     (if can_print w cross_mark then
        if can_print w (body_text r) then
          \<lparr>stdout = banner_stdin
                    @ [cross_mark @ u '' Error: '' @ str_int (status_code r), body_text r],
           posted = [request_stdin], uncaught = None\<rparr>
        else
          caught w (banner_stdin @ [cross_mark @ u '' Error: '' @ str_int (status_code r)])
            request_stdin
            (UnicodeEncodeError (body_text r) (first_unencodable w (body_text r)))
      else
        caught w banner_stdin request_stdin
          (UnicodeEncodeError (cross_mark @ u '' Error: '' @ str_int (status_code r))
             (first_unencodable w (cross_mark @ u '' Error: '' @ str_int (status_code r)))))"
  by (simp add: main_stdin_try finish_try_except try_stdin_other_status
      then_do_def py_print_def can_print_lines caught_def)

lemma run_stdin_200:
  "post w request_stdin = Inr r \<Longrightarrow> status_code r = 200 \<Longrightarrow>
   main_stdin w =
     (if can_print w check_mark then
        case json r of
          Inl e \<Rightarrow>
            caught w (banner_stdin @ [check_mark @ u '' Success! Stdin implementation working''])
              request_stdin e
        | Inr result \<Rightarrow>
            (case and_then (choices0_message_content result) py_len of
               Inl e \<Rightarrow>
                 caught w (banner_stdin
                           @ [check_mark @ u '' Success! Stdin implementation working''])
                   request_stdin e
             | Inr n \<Rightarrow>
                 \<lparr>stdout = banner_stdin
                           @ [check_mark @ u '' Success! Stdin implementation working'',
                              u ''Response length: '' @ str_int (int n)],
                  posted = [request_stdin], uncaught = None\<rparr>)
      else
        caught w banner_stdin request_stdin
          (UnicodeEncodeError (check_mark @ u '' Success! Stdin implementation working'')
             (first_unencodable w (check_mark @ u '' Success! Stdin implementation working''))))"
  by (simp add: main_stdin_try finish_try_except try_stdin_200
      then_do_def py_print_def evaluate_def can_print_lines caught_def
      split: sum.splits)


subsection \<open>Example runs\<close>

lemma can_print_utf8:
  "can_print (example_world utf8_stdout server) check_mark"
  "can_print (example_world utf8_stdout server) cross_mark"
  by (simp_all add: can_print_def encodable_def example_world_def utf8_stdout_def
      check_mark_def cross_mark_def)

lemma cannot_print_ascii:
  "\<not> can_print (example_world ascii_stdout server) check_mark"
  "\<not> can_print (example_world ascii_stdout server) cross_mark"
  by (simp_all add: can_print_def encodable_def example_world_def ascii_stdout_def
      check_mark_def cross_mark_def)

lemma post_example_world: "post (example_world enc server) req = server req"
  by (simp add: example_world_def)

lemma first_unencodable_cross:
  "first_unencodable (example_world ascii_stdout server) (cross_mark @ s) = 0"
  by (simp add: first_unencodable_def encodable_def example_world_def ascii_stdout_def
      cross_mark_def)

lemma first_unencodable_check:
  "first_unencodable (example_world ascii_stdout server) (check_mark @ s) = 0"
  by (simp add: first_unencodable_def encodable_def example_world_def ascii_stdout_def
      check_mark_def)

lemma banner_large_stdin_lines:
  "banner_large_stdin =
     [u ''Testing stdin implementation with large prompt...'', u ''Prompt size: 61440 bytes'']"
  by (simp add: banner_large_stdin_def length_large_content_large_stdin str_61440 u_def)

lemma banner_stdin_lines:
  "banner_stdin =
     [u ''Testing stdin implementation with large prompt...'', u ''Prompt size: 61440 bytes'',
      u ''Tools count: 50'']"
  by (simp add: banner_stdin_def length_large_content_stdin str_61440 large_tools_map str_50
      u_def)

lemma str_exn_LibraryError: "str_exn w (LibraryError m) = m"
  by (simp add: str_exn_def)

lemma can_print_literal:
  "can_print w (u ''Connection refused'')"
  "can_print w (u ''Expecting value: line 1 column 1 (char 0)'')"
  "can_print w (u ''server error'')"
  "can_print w (u ''hello'')"
  "can_print w (u ''list index out of range'')"
  by (rule can_print_ascii, simp add: u_def)+

text \<open>
  C3, as stated, fails where standard output cannot encode the failure marker. With an
  ASCII standard output and a refused connection, test-large-stdin.py prints its two
  opening lines and nothing else: the handler's \<open>print\<close> raises \<open>UnicodeEncodeError\<close>,
  nothing catches it, and the process exits with code 1.
\<close>

theorem exceptions_exit_zero_counterexample:
  "post (example_world ascii_stdout (\<lambda>req. Inl connection_refused)) request_large_stdin
     = Inl connection_refused
   \<and> stdout (main_large_stdin (example_world ascii_stdout (\<lambda>req. Inl connection_refused)))
       = [u ''Testing stdin implementation with large prompt...'',
          u ''Prompt size: 61440 bytes'']
   \<and> uncaught (main_large_stdin (example_world ascii_stdout (\<lambda>req. Inl connection_refused)))
       = Some (UnicodeEncodeError (cross_mark @ u '' Error: Connection refused'') 0)
   \<and> exit_code (main_large_stdin (example_world ascii_stdout (\<lambda>req. Inl connection_refused)))
       = 1"
proof -
  let ?w = "example_world ascii_stdout (\<lambda>req. Inl connection_refused)"
  have p: "post ?w request_large_stdin = Inl connection_refused"
    by (simp add: post_example_world)
  have l: "failure_line ?w connection_refused = cross_mark @ u '' Error: Connection refused''"
    by (simp add: failure_line_def connection_refused_def str_exn_LibraryError u_def)
  have n: "\<not> can_print ?w (failure_line ?w connection_refused)"
    by (simp add: can_print_failure_line cannot_print_ascii)
  have "main_large_stdin ?w =
      \<lparr>stdout = banner_large_stdin, posted = [request_large_stdin],
       uncaught = Some (UnicodeEncodeError (failure_line ?w connection_refused)
                         (first_unencodable ?w (failure_line ?w connection_refused)))\<rparr>"
    using run_large_stdin_post_raises [OF p] n by (simp add: caught_def)
  with p show ?thesis
    by (simp add: l first_unencodable_cross banner_large_stdin_lines exit_code_def)
qed

text \<open>
  C3, amended. In either script, let \<open>e\<close> be an exception raised by \<open>requests.post\<close>, or,
  after a response with status 200 whose success line was printed, by \<open>response.json()\<close>
  or by the expression that extracts \<open>choices[0].message.content\<close> and slices it
  (test-large-stdin.py) or takes its length (test-stdin.py); a value that lacks those keys
  makes the extraction raise. The \<open>except\<close> clause catches \<open>e\<close>. Where standard output can
  encode the failure marker and \<open>str(e)\<close>, the failure line is the last line printed, no
  exception leaves the function, and the process exits with code 0. Where it cannot, the
  handler's own \<open>print\<close> raises \<open>UnicodeEncodeError\<close>, which leaves the function, and the
  process exits with code 1.
\<close>

theorem exceptions_are_caught_and_printed:
  "(post w request_large_stdin = Inl e \<and> can_print w cross_mark \<and> can_print w (str_exn w e)
    \<longrightarrow> stdout (main_large_stdin w) = banner_large_stdin @ [failure_line w e]
        \<and> uncaught (main_large_stdin w) = None
        \<and> exit_code (main_large_stdin w) = 0)
   \<and> (post w request_large_stdin = Inr r \<and> status_code r = 200 \<and> can_print w check_mark
        \<and> (json r = Inl e
            \<or> (\<exists>result. json r = Inr result
                  \<and> and_then (choices0_message_content result) (\<lambda>c. slice_to c 200) = Inl e))
        \<and> can_print w cross_mark \<and> can_print w (str_exn w e)
    \<longrightarrow> stdout (main_large_stdin w) =
          banner_large_stdin
          @ [check_mark @ u '' Success! Large prompt handled correctly'', failure_line w e]
        \<and> uncaught (main_large_stdin w) = None
        \<and> exit_code (main_large_stdin w) = 0)
   \<and> ((post w request_large_stdin = Inl e
         \<or> (post w request_large_stdin = Inr r \<and> status_code r = 200 \<and> can_print w check_mark
             \<and> (json r = Inl e
                 \<or> (\<exists>result. json r = Inr result
                       \<and> and_then (choices0_message_content result) (\<lambda>c. slice_to c 200)
                           = Inl e))))
        \<and> \<not> (can_print w cross_mark \<and> can_print w (str_exn w e))
    \<longrightarrow> uncaught (main_large_stdin w) =
          Some (UnicodeEncodeError (failure_line w e) (first_unencodable w (failure_line w e)))
        \<and> exit_code (main_large_stdin w) = 1)
   \<and> (post w request_stdin = Inl e \<and> can_print w cross_mark \<and> can_print w (str_exn w e)
    \<longrightarrow> stdout (main_stdin w) = banner_stdin @ [failure_line w e]
        \<and> uncaught (main_stdin w) = None
        \<and> exit_code (main_stdin w) = 0)
   \<and> (post w request_stdin = Inr r \<and> status_code r = 200 \<and> can_print w check_mark
        \<and> (json r = Inl e
            \<or> (\<exists>result. json r = Inr result
                  \<and> and_then (choices0_message_content result) py_len = Inl e))
        \<and> can_print w cross_mark \<and> can_print w (str_exn w e)
    \<longrightarrow> stdout (main_stdin w) =
          banner_stdin
          @ [check_mark @ u '' Success! Stdin implementation working'', failure_line w e]
        \<and> uncaught (main_stdin w) = None
        \<and> exit_code (main_stdin w) = 0)
   \<and> ((post w request_stdin = Inl e
         \<or> (post w request_stdin = Inr r \<and> status_code r = 200 \<and> can_print w check_mark
             \<and> (json r = Inl e
                 \<or> (\<exists>result. json r = Inr result
                       \<and> and_then (choices0_message_content result) py_len = Inl e))))
        \<and> \<not> (can_print w cross_mark \<and> can_print w (str_exn w e))
    \<longrightarrow> uncaught (main_stdin w) =
          Some (UnicodeEncodeError (failure_line w e) (first_unencodable w (failure_line w e)))
        \<and> exit_code (main_stdin w) = 1)
   \<and> (content_at value = None
    \<longrightarrow> (\<exists>e'. and_then (choices0_message_content value) (\<lambda>c. slice_to c 200) = Inl e')
        \<and> (\<exists>e'. and_then (choices0_message_content value) py_len = Inl e'))"
proof -
  have missing: "(\<exists>e'. and_then (choices0_message_content value) f = Inl e')"
    if "content_at value = None" for f :: "pyval \<Rightarrow> exn + 'b"
    using lacking_keys_raises [OF that] by (auto simp: and_then_def)
  have l1: "main_large_stdin w = caught w banner_large_stdin request_large_stdin e"
    if "post w request_large_stdin = Inl e"
    using that by (rule run_large_stdin_post_raises)
  have l2: "main_large_stdin w =
      caught w (banner_large_stdin @ [check_mark @ u '' Success! Large prompt handled correctly''])
        request_large_stdin e"
    if "post w request_large_stdin = Inr r" "status_code r = 200" "can_print w check_mark"
      "json r = Inl e
       \<or> (\<exists>result. json r = Inr result
             \<and> and_then (choices0_message_content result) (\<lambda>c. slice_to c 200) = Inl e)"
    using that(4) by (auto simp: run_large_stdin_200 [OF that(1,2)] that(3))
  have s1: "main_stdin w = caught w banner_stdin request_stdin e"
    if "post w request_stdin = Inl e"
    using that by (rule run_stdin_post_raises)
  have s2: "main_stdin w =
      caught w (banner_stdin @ [check_mark @ u '' Success! Stdin implementation working''])
        request_stdin e"
    if "post w request_stdin = Inr r" "status_code r = 200" "can_print w check_mark"
      "json r = Inl e
       \<or> (\<exists>result. json r = Inr result
             \<and> and_then (choices0_message_content result) py_len = Inl e)"
    using that(4) by (auto simp: run_stdin_200 [OF that(1,2)] that(3))
  show ?thesis
    using missing [of "\<lambda>c. slice_to c 200"] missing [of py_len]
    by (intro conjI impI; (elim conjE disjE)?)
      (simp_all add: l1 l2 s1 s2 caught_def can_print_failure_line exit_code_def)
qed


lemma extraction_no_choices:
  "choices0_message_content (PDict []) = Inl (KeyError (PStr (u ''choices'')))"
  by (simp add: choices0_message_content_def and_then_def)

lemma extraction_empty_choices:
  "choices0_message_content (PDict [(u ''choices'', PList [])]) = Inl IndexError"
  by (simp add: choices0_message_content_def and_then_def norm_index_def)

lemma str_exn_example:
  "str_exn (example_world enc server) (KeyError (PStr k)) = [39] @ k @ [39]"
  "str_exn (example_world enc server) IndexError = u ''list index out of range''"
  "str_exn (example_world enc server) (UnicodeEncodeError s i)
     = u ''codec cannot encode character in position '' @ str_int (int i)"
  by (simp_all add: str_exn_def example_world_def)

theorem exceptions_are_caught_and_printed_witness:
  "post (example_world utf8_stdout (\<lambda>req. Inl connection_refused)) request_large_stdin
     = Inl connection_refused
   \<and> can_print (example_world utf8_stdout (\<lambda>req. Inl connection_refused)) cross_mark
   \<and> stdout (main_large_stdin (example_world utf8_stdout (\<lambda>req. Inl connection_refused)))
       = [u ''Testing stdin implementation with large prompt...'',
          u ''Prompt size: 61440 bytes'',
          cross_mark @ u '' Error: Connection refused'']
   \<and> exit_code (main_large_stdin (example_world utf8_stdout (\<lambda>req. Inl connection_refused)))
       = 0
   \<and> post (example_world utf8_stdout (\<lambda>req. Inr response_no_choices)) request_stdin
       = Inr response_no_choices
   \<and> status_code response_no_choices = 200
   \<and> json response_no_choices = Inr (PDict [])
   \<and> content_at (PDict []) = None
   \<and> and_then (choices0_message_content (PDict [])) py_len
       = Inl (KeyError (PStr (u ''choices'')))
   \<and> stdout (main_stdin (example_world utf8_stdout (\<lambda>req. Inr response_no_choices)))
       = [u ''Testing stdin implementation with large prompt...'',
          u ''Prompt size: 61440 bytes'',
          u ''Tools count: 50'',
          check_mark @ u '' Success! Stdin implementation working'',
          cross_mark @ u '' Error: '' @ [39] @ u ''choices'' @ [39]]
   \<and> exit_code (main_stdin (example_world utf8_stdout (\<lambda>req. Inr response_no_choices))) = 0
   \<and> \<not> can_print (example_world ascii_stdout (\<lambda>req. Inl connection_refused)) cross_mark
   \<and> exit_code (main_large_stdin (example_world ascii_stdout (\<lambda>req. Inl connection_refused)))
       = 1"
proof -
  let ?w1 = "example_world utf8_stdout (\<lambda>req. Inl connection_refused)"
  let ?w2 = "example_world utf8_stdout (\<lambda>req. Inr response_no_choices)"
  let ?w3 = "example_world ascii_stdout (\<lambda>req. Inl connection_refused)"
  let ?k = "KeyError (PStr (u ''choices''))"
  have h1: "post ?w1 request_large_stdin = Inl connection_refused"
    and h2: "post ?w2 request_stdin = Inr response_no_choices"
    and h3: "post ?w3 request_large_stdin = Inl connection_refused"
    by (simp_all add: post_example_world)
  have r: "status_code response_no_choices = 200" "json response_no_choices = Inr (PDict [])"
    by (simp_all add: response_no_choices_def)
  have x: "and_then (choices0_message_content (PDict [])) py_len = Inl ?k"
    by (simp add: extraction_no_choices and_then_def)
  have c1: "can_print ?w1 (str_exn ?w1 connection_refused)"
    by (simp add: connection_refused_def str_exn_LibraryError can_print_literal)
  have c2: "can_print ?w2 (str_exn ?w2 ?k)"
    by (simp add: str_exn_example, rule can_print_ascii, simp add: u_def)
  have f1: "failure_line ?w1 connection_refused = cross_mark @ u '' Error: Connection refused''"
    by (simp add: failure_line_def connection_refused_def str_exn_LibraryError u_def)
  have f2: "failure_line ?w2 ?k = cross_mark @ u '' Error: '' @ [39] @ u ''choices'' @ [39]"
    by (simp add: failure_line_def str_exn_example)
  from exceptions_are_caught_and_printed [of ?w1 connection_refused, THEN conjunct1]
    h1 c1 can_print_utf8
  have a: "stdout (main_large_stdin ?w1) = banner_large_stdin @ [failure_line ?w1 connection_refused]
      \<and> exit_code (main_large_stdin ?w1) = 0"
    by simp
  from exceptions_are_caught_and_printed [of ?w2 ?k response_no_choices,
      THEN conjunct2, THEN conjunct2, THEN conjunct2, THEN conjunct2, THEN conjunct1]
    h2 r x c2 can_print_utf8
  have b: "stdout (main_stdin ?w2) =
        banner_stdin @ [check_mark @ u '' Success! Stdin implementation working'',
                        failure_line ?w2 ?k]
      \<and> exit_code (main_stdin ?w2) = 0"
    by simp
  from exceptions_are_caught_and_printed [of ?w3 connection_refused,
      THEN conjunct2, THEN conjunct2, THEN conjunct1]
    h3 cannot_print_ascii
  have c: "exit_code (main_large_stdin ?w3) = 1"
    by simp
  from a b c h1 h2 r x show ?thesis
    by (simp add: f1 f2 banner_large_stdin_lines banner_stdin_lines can_print_utf8
        cannot_print_ascii)
qed


lemma extraction_content:
  "content_at result = Some c \<Longrightarrow> choices0_message_content result = Inr c"
  by (simp add: extraction_iff_content_at)

lemma content_at_hello:
  "content_at (PDict [(u ''choices'', PList [PDict [(u ''message'',
                PDict [(u ''content'', PStr s)])]])]) = Some (PStr s)"
  by (simp add: u_inj)

lemma str_small:
  "str_int 5 = u ''5''" "str_int 12 = u ''12''" "str_int 500 = u ''500''"
  by (simp_all add: str_int_def str_nat.simps u_def)

text \<open>
  C5, as stated, fails for a content that standard output cannot encode. The body
  \<open>{"choices":[{"message":{"content":"ab\ud800"}}]}\<close> is valid JSON of the expected
  shape; its content ends in a lone surrogate, which UTF-8 cannot encode. With status 200
  and a UTF-8 standard output, test-large-stdin.py prints the success line, then the
  \<open>print\<close> of the excerpt raises \<open>UnicodeEncodeError\<close> at position 12, and the handler
  prints a failure line: no view of the content is printed.
\<close>

theorem ok_response_excerpt_counterexample:
  \<open>post (example_world utf8_stdout (\<lambda>req. Inr response_surrogate)) request_large_stdin
     = Inr response_surrogate
   \<and> status_code response_surrogate = 200
   \<and> json_loads (example_world utf8_stdout (\<lambda>req. Inr response_surrogate))
         (body_text response_surrogate)
       = Some (PDict [(u ''choices'', PList [PDict [(u ''message'',
                PDict [(u ''content'', PStr [97, 98, 0xD800])])]])])
   \<and> json response_surrogate
       = Inr (PDict [(u ''choices'', PList [PDict [(u ''message'',
                PDict [(u ''content'', PStr [97, 98, 0xD800])])]])])
   \<and> content_at (PDict [(u ''choices'', PList [PDict [(u ''message'',
                PDict [(u ''content'', PStr [97, 98, 0xD800])])]])])
       = Some (PStr [97, 98, 0xD800])
   \<and> stdout (main_large_stdin (example_world utf8_stdout (\<lambda>req. Inr response_surrogate)))
       = [u ''Testing stdin implementation with large prompt...'',
          u ''Prompt size: 61440 bytes'',
          check_mark @ u '' Success! Large prompt handled correctly'',
          cross_mark @ u '' Error: codec cannot encode character in position 12'']\<close>
proof -
  let ?w = "example_world utf8_stdout (\<lambda>req. Inr response_surrogate)"
  let ?v = "PDict [(u ''choices'', PList [PDict [(u ''message'',
                PDict [(u ''content'', PStr [97, 98, 0xD800])])]])]"
  let ?line = "u ''Response: '' @ [97, 98, 0xD800] @ u ''...''"
  let ?e = "UnicodeEncodeError ?line 12"
  have p: "post ?w request_large_stdin = Inr response_surrogate"
    by (simp add: post_example_world)
  have st: "status_code response_surrogate = 200" and j: "json response_surrogate = Inr ?v"
    by (simp_all add: response_surrogate_def)
  have parsed: "json_loads ?w (body_text response_surrogate) = Some ?v"
    by (simp add: response_surrogate_def json_loads_def skip_ws_def is_ws_def u_def
        match_number_def match_integer_def
        match_frac_def match_exp_def is_digit_def int_of_str_def digits_value_def
        decode_uXXXX_def hex_value_def backslash_def py_dict_def fuel_numeral)
  have c: "content_at ?v = Some (PStr [97, 98, 0xD800])"
    by (rule content_at_hello)
  have x: "and_then (choices0_message_content ?v) (\<lambda>c. slice_to c 200)
      = Inr (PStr [97, 98, 0xD800])"
    by (simp add: extraction_content [OF c] and_then_def)
  have n: "\<not> can_print ?w [97, 98, 0xD800]"
    by (simp add: can_print_def encodable_def example_world_def utf8_stdout_def)
  have i: "first_unencodable ?w ?line = 12"
    by (simp add: first_unencodable_def encodable_def example_world_def utf8_stdout_def u_def)
  have f: "failure_line ?w ?e
      = cross_mark @ u '' Error: codec cannot encode character in position 12''"
    by (simp add: failure_line_def str_exn_example str_small u_def)
  have cf: "can_print ?w (failure_line ?w ?e)"
    unfolding can_print_failure_line str_exn_example
    by (simp add: can_print_utf8 can_print_append can_print_str_int, rule can_print_ascii,
        simp add: u_def)
  have "main_large_stdin ?w =
      caught ?w (banner_large_stdin @ [check_mark @ u '' Success! Large prompt handled correctly''])
        request_large_stdin ?e"
    using i by (simp add: run_large_stdin_200 [OF p st] can_print_utf8 j x format_value_def n)
  then have "stdout (main_large_stdin ?w) =
      banner_large_stdin @ [check_mark @ u '' Success! Large prompt handled correctly'',
                            failure_line ?w ?e]"
    using cf by (simp add: caught_def)
  with p st j c parsed f show ?thesis
    by (simp add: banner_large_stdin_lines)
qed

text \<open>
  C5, amended. Let the response have status 200, let \<open>response.json()\<close> return a value
  of the expected shape, that is a dictionary whose \<open>choices\<close> is a list whose first
  element is a dictionary whose \<open>message\<close> is a dictionary whose \<open>content\<close> is a string
  \<open>c\<close>, and let standard output be able to encode the success marker. Then the extraction
  yields \<open>c\<close>; test-stdin.py prints the success line and then \<open>Response length: \<close> followed
  by the length of \<open>c\<close>; test-large-stdin.py, where standard output can also encode the
  first 200 characters of \<open>c\<close>, prints the success line and then \<open>Response: \<close>, those
  characters and \<open>...\<close>. In both cases no exception leaves the function and the process
  exits with code 0.
\<close>

theorem ok_response_is_parsed_and_reported:
  "(post w request_large_stdin = Inr r \<and> status_code r = 200 \<and> json r = Inr result
      \<and> content_at result = Some (PStr c)
      \<and> can_print w check_mark \<and> can_print w (take 200 c)
    \<longrightarrow> choices0_message_content result = Inr (PStr c)
        \<and> stdout (main_large_stdin w) =
            banner_large_stdin
            @ [check_mark @ u '' Success! Large prompt handled correctly'',
               u ''Response: '' @ take 200 c @ u ''...'']
        \<and> uncaught (main_large_stdin w) = None
        \<and> exit_code (main_large_stdin w) = 0)
   \<and> (post w request_stdin = Inr r \<and> status_code r = 200 \<and> json r = Inr result
      \<and> content_at result = Some (PStr c)
      \<and> can_print w check_mark
    \<longrightarrow> choices0_message_content result = Inr (PStr c)
        \<and> stdout (main_stdin w) =
            banner_stdin
            @ [check_mark @ u '' Success! Stdin implementation working'',
               u ''Response length: '' @ str_int (int (length c))]
        \<and> uncaught (main_stdin w) = None
        \<and> exit_code (main_stdin w) = 0)"
proof -
  have l: "choices0_message_content result = Inr (PStr c)
        \<and> stdout (main_large_stdin w) =
            banner_large_stdin
            @ [check_mark @ u '' Success! Large prompt handled correctly'',
               u ''Response: '' @ take 200 c @ u ''...'']
        \<and> uncaught (main_large_stdin w) = None
        \<and> exit_code (main_large_stdin w) = 0"
    if a: "post w request_large_stdin = Inr r" "status_code r = 200" "json r = Inr result"
      "content_at result = Some (PStr c)" "can_print w check_mark" "can_print w (take 200 c)"
  proof -
    note x = extraction_content [OF a(4)]
    have "main_large_stdin w =
        \<lparr>stdout = banner_large_stdin
                  @ [check_mark @ u '' Success! Large prompt handled correctly'',
                     u ''Response: '' @ take 200 c @ u ''...''],
         posted = [request_large_stdin], uncaught = None\<rparr>"
      by (simp add: run_large_stdin_200 [OF a(1,2)] a(3,5,6) x and_then_def format_value_def)
    with x show ?thesis
      by (simp add: exit_code_def)
  qed
  have s: "choices0_message_content result = Inr (PStr c)
        \<and> stdout (main_stdin w) =
            banner_stdin
            @ [check_mark @ u '' Success! Stdin implementation working'',
               u ''Response length: '' @ str_int (int (length c))]
        \<and> uncaught (main_stdin w) = None
        \<and> exit_code (main_stdin w) = 0"
    if a: "post w request_stdin = Inr r" "status_code r = 200" "json r = Inr result"
      "content_at result = Some (PStr c)" "can_print w check_mark"
  proof -
    note x = extraction_content [OF a(4)]
    have "main_stdin w =
        \<lparr>stdout = banner_stdin
                  @ [check_mark @ u '' Success! Stdin implementation working'',
                     u ''Response length: '' @ str_int (int (length c))],
         posted = [request_stdin], uncaught = None\<rparr>"
      by (simp add: run_stdin_200 [OF a(1,2)] a(3,5) x and_then_def)
    with x show ?thesis
      by (simp add: exit_code_def)
  qed
  from l s show ?thesis
    by blast
qed

theorem ok_response_is_parsed_and_reported_witness:
  \<open>post (example_world utf8_stdout (\<lambda>req. Inr response_hello)) request_large_stdin
     = Inr response_hello
   \<and> post (example_world utf8_stdout (\<lambda>req. Inr response_hello)) request_stdin
       = Inr response_hello
   \<and> status_code response_hello = 200
   \<and> json response_hello
       = Inr (PDict [(u ''choices'', PList [PDict [(u ''message'',
                PDict [(u ''content'', PStr (u ''hello''))])]])])
   \<and> content_at (PDict [(u ''choices'', PList [PDict [(u ''message'',
                PDict [(u ''content'', PStr (u ''hello''))])]])])
       = Some (PStr (u ''hello''))
   \<and> can_print (example_world utf8_stdout (\<lambda>req. Inr response_hello)) check_mark
   \<and> can_print (example_world utf8_stdout (\<lambda>req. Inr response_hello)) (take 200 (u ''hello''))
   \<and> stdout (main_large_stdin (example_world utf8_stdout (\<lambda>req. Inr response_hello)))
       = [u ''Testing stdin implementation with large prompt...'',
          u ''Prompt size: 61440 bytes'',
          check_mark @ u '' Success! Large prompt handled correctly'',
          u ''Response: hello...'']
   \<and> exit_code (main_large_stdin (example_world utf8_stdout (\<lambda>req. Inr response_hello))) = 0
   \<and> stdout (main_stdin (example_world utf8_stdout (\<lambda>req. Inr response_hello)))
       = [u ''Testing stdin implementation with large prompt...'',
          u ''Prompt size: 61440 bytes'',
          u ''Tools count: 50'',
          check_mark @ u '' Success! Stdin implementation working'',
          u ''Response length: 5'']
   \<and> exit_code (main_stdin (example_world utf8_stdout (\<lambda>req. Inr response_hello))) = 0\<close>
proof -
  let ?w = "example_world utf8_stdout (\<lambda>req. Inr response_hello)"
  let ?v = "PDict [(u ''choices'', PList [PDict [(u ''message'',
                PDict [(u ''content'', PStr (u ''hello''))])]])]"
  have p: "post ?w request_large_stdin = Inr response_hello"
    "post ?w request_stdin = Inr response_hello"
    by (simp_all add: post_example_world)
  have r: "status_code response_hello = 200" "json response_hello = Inr ?v"
    by (simp_all add: response_hello_def)
  have c: "content_at ?v = Some (PStr (u ''hello''))"
    by (rule content_at_hello)
  have t: "take 200 (u ''hello'') = u ''hello''" "length (u ''hello'') = 5"
    by (simp_all add: u_def)
  have cp: "can_print ?w (take 200 (u ''hello''))"
    by (simp add: t can_print_literal)
  have l: "u ''Response: '' @ u ''hello'' @ u ''...'' = u ''Response: hello...''"
    "u ''Response length: '' @ u ''5'' = u ''Response length: 5''"
    by (simp_all add: u_def)
  from ok_response_is_parsed_and_reported [of ?w response_hello ?v "u ''hello''", THEN conjunct1]
    p r c cp can_print_utf8
  have a: "stdout (main_large_stdin ?w) =
        banner_large_stdin @ [check_mark @ u '' Success! Large prompt handled correctly'',
                              u ''Response: '' @ take 200 (u ''hello'') @ u ''...'']
      \<and> exit_code (main_large_stdin ?w) = 0"
    by simp
  from ok_response_is_parsed_and_reported [of ?w response_hello ?v "u ''hello''", THEN conjunct2]
    p r c can_print_utf8
  have b: "stdout (main_stdin ?w) =
        banner_stdin @ [check_mark @ u '' Success! Stdin implementation working'',
                        u ''Response length: '' @ str_int (int (length (u ''hello'')))]
      \<and> exit_code (main_stdin ?w) = 0"
    by simp
  from a b p r c cp show ?thesis
    by (simp add: t l str_small banner_large_stdin_lines banner_stdin_lines can_print_utf8)
qed


text \<open>
  C6, as stated, fails where standard output cannot encode the failure marker. With an
  ASCII standard output and the answer 500 \<open>server error\<close>, test-large-stdin.py prints
  its two opening lines and nothing else: the \<open>print\<close> of the status line raises
  \<open>UnicodeEncodeError\<close>, the handler's \<open>print\<close> raises it again, and the process exits
  with code 1.
\<close>

theorem other_status_exit_zero_counterexample:
  "post (example_world ascii_stdout (\<lambda>req. Inr response_500)) request_large_stdin
     = Inr response_500
   \<and> status_code response_500 = 500
   \<and> body_text response_500 = u ''server error''
   \<and> stdout (main_large_stdin (example_world ascii_stdout (\<lambda>req. Inr response_500)))
       = [u ''Testing stdin implementation with large prompt...'',
          u ''Prompt size: 61440 bytes'']
   \<and> exit_code (main_large_stdin (example_world ascii_stdout (\<lambda>req. Inr response_500))) = 1"
proof -
  let ?w = "example_world ascii_stdout (\<lambda>req. Inr response_500)"
  have p: "post ?w request_large_stdin = Inr response_500"
    by (simp add: post_example_world)
  have st: "status_code response_500 \<noteq> 200"
    by (simp add: response_500_def)
  have "stdout (main_large_stdin ?w) = banner_large_stdin
      \<and> uncaught (main_large_stdin ?w) \<noteq> None"
    by (simp add: run_large_stdin_other_status [OF p st] cannot_print_ascii caught_def
        can_print_failure_line)
  with p show ?thesis
    by (auto simp: banner_large_stdin_lines exit_code_def response_500_def)
qed

text \<open>
  C6, amended. Let the response have a status code other than 200. Where standard output
  can encode the failure marker and the response body, either script prints the failure
  marker with the status code, then the raw body, no exception leaves the function and
  the process exits with code 0. Where it can encode the marker but not the body, the
  status line is printed and the \<open>UnicodeEncodeError\<close> of the second \<open>print\<close> goes to
  the handler. Where it cannot encode the marker, nothing is printed after the opening
  lines and the process exits with code 1.
\<close>

theorem other_status_is_reported:
  "(post w request_large_stdin = Inr r \<and> status_code r \<noteq> 200
      \<and> can_print w cross_mark \<and> can_print w (body_text r)
    \<longrightarrow> stdout (main_large_stdin w) =
          banner_large_stdin
          @ [cross_mark @ u '' Error: '' @ str_int (status_code r), body_text r]
        \<and> uncaught (main_large_stdin w) = None
        \<and> exit_code (main_large_stdin w) = 0)
   \<and> (post w request_stdin = Inr r \<and> status_code r \<noteq> 200
      \<and> can_print w cross_mark \<and> can_print w (body_text r)
    \<longrightarrow> stdout (main_stdin w) =
          banner_stdin @ [cross_mark @ u '' Error: '' @ str_int (status_code r), body_text r]
        \<and> uncaught (main_stdin w) = None
        \<and> exit_code (main_stdin w) = 0)
   \<and> (post w request_large_stdin = Inr r \<and> status_code r \<noteq> 200
      \<and> can_print w cross_mark \<and> \<not> can_print w (body_text r)
    \<longrightarrow> main_large_stdin w =
          caught w (banner_large_stdin @ [cross_mark @ u '' Error: '' @ str_int (status_code r)])
            request_large_stdin
            (UnicodeEncodeError (body_text r) (first_unencodable w (body_text r))))
   \<and> (post w request_stdin = Inr r \<and> status_code r \<noteq> 200
      \<and> can_print w cross_mark \<and> \<not> can_print w (body_text r)
    \<longrightarrow> main_stdin w =
          caught w (banner_stdin @ [cross_mark @ u '' Error: '' @ str_int (status_code r)])
            request_stdin
            (UnicodeEncodeError (body_text r) (first_unencodable w (body_text r))))
   \<and> (post w request_large_stdin = Inr r \<and> status_code r \<noteq> 200 \<and> \<not> can_print w cross_mark
    \<longrightarrow> stdout (main_large_stdin w) = banner_large_stdin
        \<and> exit_code (main_large_stdin w) = 1)
   \<and> (post w request_stdin = Inr r \<and> status_code r \<noteq> 200 \<and> \<not> can_print w cross_mark
    \<longrightarrow> stdout (main_stdin w) = banner_stdin
        \<and> exit_code (main_stdin w) = 1)"
  by (intro conjI impI; elim conjE)
    (simp_all add: run_large_stdin_other_status run_stdin_other_status caught_def
      can_print_failure_line exit_code_def)

theorem other_status_is_reported_witness:
  "post (example_world utf8_stdout (\<lambda>req. Inr response_500)) request_large_stdin
     = Inr response_500
   \<and> post (example_world utf8_stdout (\<lambda>req. Inr response_500)) request_stdin
       = Inr response_500
   \<and> status_code response_500 \<noteq> 200
   \<and> can_print (example_world utf8_stdout (\<lambda>req. Inr response_500)) cross_mark
   \<and> can_print (example_world utf8_stdout (\<lambda>req. Inr response_500)) (body_text response_500)
   \<and> stdout (main_large_stdin (example_world utf8_stdout (\<lambda>req. Inr response_500)))
       = [u ''Testing stdin implementation with large prompt...'',
          u ''Prompt size: 61440 bytes'',
          cross_mark @ u '' Error: 500'',
          u ''server error'']
   \<and> exit_code (main_large_stdin (example_world utf8_stdout (\<lambda>req. Inr response_500))) = 0
   \<and> stdout (main_stdin (example_world utf8_stdout (\<lambda>req. Inr response_500)))
       = [u ''Testing stdin implementation with large prompt...'',
          u ''Prompt size: 61440 bytes'',
          u ''Tools count: 50'',
          cross_mark @ u '' Error: 500'',
          u ''server error'']
   \<and> exit_code (main_stdin (example_world utf8_stdout (\<lambda>req. Inr response_500))) = 0
   \<and> post (example_world ascii_stdout (\<lambda>req. Inr response_500)) request_stdin
       = Inr response_500
   \<and> \<not> can_print (example_world ascii_stdout (\<lambda>req. Inr response_500)) cross_mark
   \<and> stdout (main_stdin (example_world ascii_stdout (\<lambda>req. Inr response_500)))
       = [u ''Testing stdin implementation with large prompt...'',
          u ''Prompt size: 61440 bytes'',
          u ''Tools count: 50'']
   \<and> exit_code (main_stdin (example_world ascii_stdout (\<lambda>req. Inr response_500))) = 1"
proof -
  let ?w = "example_world utf8_stdout (\<lambda>req. Inr response_500)"
  let ?a = "example_world ascii_stdout (\<lambda>req. Inr response_500)"
  have p: "post ?w request_large_stdin = Inr response_500"
    "post ?w request_stdin = Inr response_500" "post ?a request_stdin = Inr response_500"
    by (simp_all add: post_example_world)
  have r: "status_code response_500 \<noteq> 200" "status_code response_500 = 500"
    "body_text response_500 = u ''server error''"
    by (simp_all add: response_500_def)
  have cp: "can_print ?w (body_text response_500)"
    by (simp add: r can_print_literal)
  have l: "cross_mark @ u '' Error: '' @ u ''500'' = cross_mark @ u '' Error: 500''"
    by (simp add: u_def)
  from other_status_is_reported [of ?w response_500, THEN conjunct1] p r(1) cp can_print_utf8
  have a: "stdout (main_large_stdin ?w) =
        banner_large_stdin
        @ [cross_mark @ u '' Error: '' @ str_int (status_code response_500),
           body_text response_500]
      \<and> exit_code (main_large_stdin ?w) = 0"
    by simp
  from other_status_is_reported [of ?w response_500, THEN conjunct2, THEN conjunct1]
    p r(1) cp can_print_utf8
  have b: "stdout (main_stdin ?w) =
        banner_stdin
        @ [cross_mark @ u '' Error: '' @ str_int (status_code response_500),
           body_text response_500]
      \<and> exit_code (main_stdin ?w) = 0"
    by simp
  from other_status_is_reported [of ?a response_500, THEN conjunct2, THEN conjunct2,
      THEN conjunct2, THEN conjunct2, THEN conjunct2]
    p r(1) cannot_print_ascii
  have c: "stdout (main_stdin ?a) = banner_stdin \<and> exit_code (main_stdin ?a) = 1"
    by simp
  from a b c p r(1) cp show ?thesis
    by (simp add: r(2,3) l str_small banner_large_stdin_lines banner_stdin_lines
        can_print_utf8 cannot_print_ascii)
qed

text \<open>
  C8, as stated, fails where standard output cannot encode the markers. With an ASCII
  standard output and a response of status 200 whose body is not JSON,
  test-large-stdin.py prints its two opening lines and nothing else: the \<open>print\<close> of the
  success line raises \<open>UnicodeEncodeError\<close> before the body is parsed, the handler's
  \<open>print\<close> raises it again, and neither marker appears in the output.
\<close>

theorem both_markers_counterexample:
  "post (example_world ascii_stdout (\<lambda>req. Inr response_not_json)) request_large_stdin
     = Inr response_not_json
   \<and> status_code response_not_json = 200
   \<and> json response_not_json = Inl not_json
   \<and> stdout (main_large_stdin (example_world ascii_stdout (\<lambda>req. Inr response_not_json)))
       = [u ''Testing stdin implementation with large prompt...'',
          u ''Prompt size: 61440 bytes'']
   \<and> exit_code (main_large_stdin (example_world ascii_stdout (\<lambda>req. Inr response_not_json)))
       = 1"
proof -
  let ?w = "example_world ascii_stdout (\<lambda>req. Inr response_not_json)"
  have p: "post ?w request_large_stdin = Inr response_not_json"
    by (simp add: post_example_world)
  have st: "status_code response_not_json = 200"
    by (simp add: response_not_json_def)
  have "stdout (main_large_stdin ?w) = banner_large_stdin
      \<and> uncaught (main_large_stdin ?w) \<noteq> None"
    by (simp add: run_large_stdin_200 [OF p st] cannot_print_ascii caught_def
        can_print_failure_line)
  with p show ?thesis
    by (auto simp: banner_large_stdin_lines exit_code_def response_not_json_def)
qed

text \<open>
  C8, amended. Let the response have status 200 and let standard output be able to encode
  both markers. If \<open>response.json()\<close> raises \<open>e\<close> (the body is not valid JSON) and
  \<open>str(e)\<close> can be encoded, either script prints its success line and then the failure
  line of \<open>e\<close>. If \<open>response.json()\<close> returns a value that lacks
  \<open>choices[0].message.content\<close> (it is not a dictionary, or it has no \<open>choices\<close>, or that
  is not a list with a first element, or that element is not a dictionary with a
  \<open>message\<close>, or that one is not a dictionary with a \<open>content\<close>), the extraction raises
  some \<open>e'\<close>, and where \<open>str(e')\<close> can be encoded either script prints its success line
  and then the failure line of \<open>e'\<close>. Where standard output can encode neither marker,
  nothing is printed after the opening lines and the process exits with code 1.
\<close>

theorem success_marker_precedes_failure_marker:
  "(post w request_large_stdin = Inr r \<and> status_code r = 200 \<and> json r = Inl e
      \<and> can_print w check_mark \<and> can_print w cross_mark \<and> can_print w (str_exn w e)
    \<longrightarrow> stdout (main_large_stdin w) =
          banner_large_stdin
          @ [check_mark @ u '' Success! Large prompt handled correctly'', failure_line w e])
   \<and> (post w request_large_stdin = Inr r \<and> status_code r = 200 \<and> json r = Inr result
      \<and> content_at result = None
      \<and> can_print w check_mark \<and> can_print w cross_mark
    \<longrightarrow> (\<exists>e'. choices0_message_content result = Inl e'
           \<and> (can_print w (str_exn w e')
              \<longrightarrow> stdout (main_large_stdin w) =
                    banner_large_stdin
                    @ [check_mark @ u '' Success! Large prompt handled correctly'',
                       failure_line w e'])))
   \<and> (post w request_stdin = Inr r \<and> status_code r = 200 \<and> json r = Inl e
      \<and> can_print w check_mark \<and> can_print w cross_mark \<and> can_print w (str_exn w e)
    \<longrightarrow> stdout (main_stdin w) =
          banner_stdin
          @ [check_mark @ u '' Success! Stdin implementation working'', failure_line w e])
   \<and> (post w request_stdin = Inr r \<and> status_code r = 200 \<and> json r = Inr result
      \<and> content_at result = None
      \<and> can_print w check_mark \<and> can_print w cross_mark
    \<longrightarrow> (\<exists>e'. choices0_message_content result = Inl e'
           \<and> (can_print w (str_exn w e')
              \<longrightarrow> stdout (main_stdin w) =
                    banner_stdin
                    @ [check_mark @ u '' Success! Stdin implementation working'',
                       failure_line w e'])))
   \<and> (post w request_large_stdin = Inr r \<and> status_code r = 200
      \<and> \<not> can_print w check_mark \<and> \<not> can_print w cross_mark
    \<longrightarrow> stdout (main_large_stdin w) = banner_large_stdin
        \<and> exit_code (main_large_stdin w) = 1)
   \<and> (post w request_stdin = Inr r \<and> status_code r = 200
      \<and> \<not> can_print w check_mark \<and> \<not> can_print w cross_mark
    \<longrightarrow> stdout (main_stdin w) = banner_stdin
        \<and> exit_code (main_stdin w) = 1)"
proof -
  have l: "\<exists>e'. choices0_message_content result = Inl e'
           \<and> (can_print w (str_exn w e')
              \<longrightarrow> stdout (main_large_stdin w) =
                    banner_large_stdin
                    @ [check_mark @ u '' Success! Large prompt handled correctly'',
                       failure_line w e'])"
    if a: "post w request_large_stdin = Inr r" "status_code r = 200" "json r = Inr result"
      "content_at result = None" "can_print w check_mark" "can_print w cross_mark"
  proof -
    from lacking_keys_raises [OF a(4)] obtain e' where e': "choices0_message_content result = Inl e'"
      by blast
    have "stdout (main_large_stdin w) =
        banner_large_stdin
        @ [check_mark @ u '' Success! Large prompt handled correctly'', failure_line w e']"
      if "can_print w (str_exn w e')"
      using that
      by (simp add: run_large_stdin_200 [OF a(1,2)] a(3,5,6) e' and_then_def caught_def
          can_print_failure_line)
    with e' show ?thesis
      by blast
  qed
  have s: "\<exists>e'. choices0_message_content result = Inl e'
           \<and> (can_print w (str_exn w e')
              \<longrightarrow> stdout (main_stdin w) =
                    banner_stdin
                    @ [check_mark @ u '' Success! Stdin implementation working'',
                       failure_line w e'])"
    if a: "post w request_stdin = Inr r" "status_code r = 200" "json r = Inr result"
      "content_at result = None" "can_print w check_mark" "can_print w cross_mark"
  proof -
    from lacking_keys_raises [OF a(4)] obtain e' where e': "choices0_message_content result = Inl e'"
      by blast
    have "stdout (main_stdin w) =
        banner_stdin
        @ [check_mark @ u '' Success! Stdin implementation working'', failure_line w e']"
      if "can_print w (str_exn w e')"
      using that
      by (simp add: run_stdin_200 [OF a(1,2)] a(3,5,6) e' and_then_def caught_def
          can_print_failure_line)
    with e' show ?thesis
      by blast
  qed
  have rest:
    "post w request_large_stdin = Inr r \<and> status_code r = 200 \<and> json r = Inl e
      \<and> can_print w check_mark \<and> can_print w cross_mark \<and> can_print w (str_exn w e)
    \<longrightarrow> stdout (main_large_stdin w) =
          banner_large_stdin
          @ [check_mark @ u '' Success! Large prompt handled correctly'', failure_line w e]"
    "post w request_stdin = Inr r \<and> status_code r = 200 \<and> json r = Inl e
      \<and> can_print w check_mark \<and> can_print w cross_mark \<and> can_print w (str_exn w e)
    \<longrightarrow> stdout (main_stdin w) =
          banner_stdin
          @ [check_mark @ u '' Success! Stdin implementation working'', failure_line w e]"
    "post w request_large_stdin = Inr r \<and> status_code r = 200
      \<and> \<not> can_print w check_mark \<and> \<not> can_print w cross_mark
    \<longrightarrow> stdout (main_large_stdin w) = banner_large_stdin
        \<and> exit_code (main_large_stdin w) = 1"
    "post w request_stdin = Inr r \<and> status_code r = 200
      \<and> \<not> can_print w check_mark \<and> \<not> can_print w cross_mark
    \<longrightarrow> stdout (main_stdin w) = banner_stdin
        \<and> exit_code (main_stdin w) = 1"
    by (simp_all add: run_large_stdin_200 run_stdin_200 caught_def can_print_failure_line
        exit_code_def)
  from l s rest show ?thesis
    by blast
qed

theorem success_marker_precedes_failure_marker_witness:
  \<open>post (example_world utf8_stdout (\<lambda>req. Inr response_not_json)) request_large_stdin
     = Inr response_not_json
   \<and> status_code response_not_json = 200
   \<and> json response_not_json = Inl not_json
   \<and> can_print (example_world utf8_stdout (\<lambda>req. Inr response_not_json)) check_mark
   \<and> can_print (example_world utf8_stdout (\<lambda>req. Inr response_not_json)) cross_mark
   \<and> stdout (main_large_stdin (example_world utf8_stdout (\<lambda>req. Inr response_not_json)))
       = [u ''Testing stdin implementation with large prompt...'',
          u ''Prompt size: 61440 bytes'',
          check_mark @ u '' Success! Large prompt handled correctly'',
          cross_mark @ u '' Error: Expecting value: line 1 column 1 (char 0)'']
   \<and> post (example_world utf8_stdout (\<lambda>req. Inr response_empty_choices)) request_stdin
       = Inr response_empty_choices
   \<and> status_code response_empty_choices = 200
   \<and> json response_empty_choices = Inr (PDict [(u ''choices'', PList [])])
   \<and> content_at (PDict [(u ''choices'', PList [])]) = None
   \<and> choices0_message_content (PDict [(u ''choices'', PList [])]) = Inl IndexError
   \<and> stdout (main_stdin (example_world utf8_stdout (\<lambda>req. Inr response_empty_choices)))
       = [u ''Testing stdin implementation with large prompt...'',
          u ''Prompt size: 61440 bytes'',
          u ''Tools count: 50'',
          check_mark @ u '' Success! Stdin implementation working'',
          cross_mark @ u '' Error: list index out of range'']\<close>
proof -
  let ?w1 = "example_world utf8_stdout (\<lambda>req. Inr response_not_json)"
  let ?w2 = "example_world utf8_stdout (\<lambda>req. Inr response_empty_choices)"
  let ?v = "PDict [(u ''choices'', PList [])]"
  have p: "post ?w1 request_large_stdin = Inr response_not_json"
    "post ?w2 request_stdin = Inr response_empty_choices"
    by (simp_all add: post_example_world)
  have r1: "status_code response_not_json = 200" "json response_not_json = Inl not_json"
    by (simp_all add: response_not_json_def)
  have r2: "status_code response_empty_choices = 200" "json response_empty_choices = Inr ?v"
    by (simp_all add: response_empty_choices_def)
  have c: "content_at ?v = None"
    by simp
  have m1: "str_exn ?w1 not_json = u ''Expecting value: line 1 column 1 (char 0)''"
    by (simp add: not_json_def str_exn_LibraryError)
  have c1: "can_print ?w1 (str_exn ?w1 not_json)"
    by (simp add: m1 can_print_literal)
  have c2: "can_print ?w2 (str_exn ?w2 IndexError)"
    by (simp add: str_exn_example can_print_literal)
  have f1: "failure_line ?w1 not_json
      = cross_mark @ u '' Error: Expecting value: line 1 column 1 (char 0)''"
    by (simp add: failure_line_def m1 u_def)
  have f2: "failure_line ?w2 IndexError = cross_mark @ u '' Error: list index out of range''"
    by (simp add: failure_line_def str_exn_example u_def)
  from success_marker_precedes_failure_marker [of ?w1 response_not_json not_json,
      THEN conjunct1] p r1 c1 can_print_utf8
  have a: "stdout (main_large_stdin ?w1) =
        banner_large_stdin
        @ [check_mark @ u '' Success! Large prompt handled correctly'',
           failure_line ?w1 not_json]"
    by simp
  from success_marker_precedes_failure_marker [of ?w2 response_empty_choices _ ?v,
      THEN conjunct2, THEN conjunct2, THEN conjunct2, THEN conjunct1] p r2 c can_print_utf8
  have "\<exists>e'. choices0_message_content ?v = Inl e'
           \<and> (can_print ?w2 (str_exn ?w2 e')
              \<longrightarrow> stdout (main_stdin ?w2) =
                    banner_stdin
                    @ [check_mark @ u '' Success! Stdin implementation working'',
                       failure_line ?w2 e'])"
    by simp
  then have b: "stdout (main_stdin ?w2) =
        banner_stdin
        @ [check_mark @ u '' Success! Stdin implementation working'',
           failure_line ?w2 IndexError]"
    using c2 by (auto simp: extraction_empty_choices)
  from a b p r1 r2 c f1 f2 show ?thesis
    by (simp add: extraction_empty_choices banner_large_stdin_lines banner_stdin_lines
        can_print_utf8)
qed

end
